theory Spec2Isabelle
  imports Main "HOL-Library.Word"
begin

unbundle bit_operations_syntax

section \<open>The BCM2835 CPU frequency driver\<close>

text \<open>
  A shallow embedding of \<^verbatim>\<open>drivers/cpufreq/bcm2835-cpufreq.c\<close>. The driver's three
  globals are a record that every operation takes and returns; everything outside the
  file (the firmware mailbox, the MyTEE flags, the privilege calls) is a record of the
  outside world together with a record of the external functions the driver links
  against.
\<close>

subsection \<open>Machine types and constants\<close>

text \<open>
  \<^verbatim>\<open>u32\<close>, \<^verbatim>\<open>uint32_t\<close> and \<^verbatim>\<open>unsigned int\<close> are 32-bit words. A C
  \<^verbatim>\<open>int\<close> that carries a rate is the same 32 bits (read with \<open>sint\<close>); the
  conversions between the two keep the bits, and the kernel is built so that
  \<^verbatim>\<open>int\<close> arithmetic wraps. Status codes, on which no arithmetic is done, are
  \<open>int\<close>.
\<close>

type_synonym u32 = "32 word"
type_synonym s32 = "32 word"

text \<open>
  The property tags of \<^verbatim>\<open>enum rpi_firmware_property_tag\<close>
  (\<^verbatim>\<open>soc/bcm2835/raspberrypi-firmware.h\<close>) that the driver uses.
\<close>

datatype rpi_firmware_property_tag =
    RPI_FIRMWARE_GET_CLOCK_RATE
  | RPI_FIRMWARE_GET_MAX_CLOCK_RATE
  | RPI_FIRMWARE_GET_MIN_CLOCK_RATE
  | RPI_FIRMWARE_SET_CLOCK_RATE

definition VCMSG_ID_ARM_CLOCK :: u32 where
  "VCMSG_ID_ARM_CLOCK = 3"

text \<open>
  Modelled from the spec: the errno values and the table terminator come from kernel
  headers that are not part of the driver file (\<^verbatim>\<open>errno-base.h\<close>,
  \<^verbatim>\<open>linux/cpufreq.h\<close>). "Device not available" is \<^verbatim>\<open>ENODEV\<close>, "invalid
  argument" is \<^verbatim>\<open>EINVAL\<close>, and the sentinel is \<^verbatim>\<open>CPUFREQ_TABLE_END\<close>; the
  numbers are those of the Linux headers (19, 22 and \<^verbatim>\<open>~1u\<close>).
\<close>

definition ENODEV :: int where
  "ENODEV = 19"

definition EINVAL :: int where
  "EINVAL = 22"

definition CPUFREQ_TABLE_END :: u32 where
  "CPUFREQ_TABLE_END = NOT 1"

text \<open>The anonymous \<^verbatim>\<open>struct { u32 id; u32 val; } packet\<close> of the property call.\<close>

record packet =
  packet_id :: u32
  packet_val :: u32

text \<open>
  \<^verbatim>\<open>struct cpufreq_frequency_table\<close>; the driver writes the \<^verbatim>\<open>frequency\<close>
  field only.
\<close>

record cpufreq_frequency_table =
  flags :: u32
  driver_data :: u32
  frequency :: u32

text \<open>
  \<^verbatim>\<open>struct cpufreq_policy\<close>: the driver reads \<^verbatim>\<open>cur\<close>; the rest belongs to the
  governor framework and is the record's extension.
\<close>

record cpufreq_policy =
  cur :: u32

subsection \<open>Driver state\<close>

text \<open>
  The globals \<^verbatim>\<open>min_frequency\<close>, \<^verbatim>\<open>max_frequency\<close> and
  \<^verbatim>\<open>bcm2835_freq_table[3]\<close>.
\<close>

record driver_state =
  min_frequency :: u32
  max_frequency :: u32
  bcm2835_freq_table :: "cpufreq_frequency_table list"

text \<open>Static storage starts zeroed.\<close>

definition initial_state :: driver_state where
  "initial_state =
     \<lparr>min_frequency = 0, max_frequency = 0,
      bcm2835_freq_table =
        [\<lparr>flags = 0, driver_data = 0, frequency = 0\<rparr>,
         \<lparr>flags = 0, driver_data = 0, frequency = 0\<rparr>,
         \<lparr>flags = 0, driver_data = 0, frequency = 0\<rparr>]\<rparr>"

text \<open>\<^verbatim>\<open>tbl[i].frequency = v\<close> on the three-slot array.\<close>

definition set_frequency ::
  "nat \<Rightarrow> u32 \<Rightarrow> cpufreq_frequency_table list \<Rightarrow> cpufreq_frequency_table list" where
  "set_frequency i v tbl = tbl[i := (tbl ! i)\<lparr>frequency := v\<rparr>]"

subsection \<open>The world outside the driver\<close>

text \<open>
  Every call that leaves the file is appended to a trace, in program order.
\<close>

datatype event =
    Ev_up_priv
  | Ev_down_priv
  | Ev_property rpi_firmware_property_tag packet

text \<open>
  \<^item> \<open>fw_handle\<close>: whether \<^verbatim>\<open>rpi_firmware_get(NULL)\<close> returns a non-NULL handle;
  \<^item> \<open>fw_state\<close>: the co-processor behind the mailbox;
  \<^item> the two MyTEE flag words read through
    \<^verbatim>\<open>MYTEE_TRUSTED_FB_MMAP_FLAG_VIRT\<close> and \<^verbatim>\<open>MYTEE_TRUSTED_FB_WRITE_FLAG_VIRT\<close>;
  \<^item> \<open>trace\<close>: the external calls made so far.
\<close>

record 'f world =
  fw_handle :: bool
  fw_state :: 'f
  trusted_display_mmap_flag :: u32
  trusted_display_write_flag :: u32
  trace :: "event list"

text \<open>
  What the driver is built with and linked against:
  \<^item> \<open>CONFIG_MYTEE\<close>: the build option guarding the security gate;
  \<^item> \<open>rpi_firmware_property\<close>: the mailbox transport, given the handle, the
    co-processor state, the tag and the packet; it returns the status, the packet as the
    firmware left it, and the new co-processor state;
  \<^item> \<open>cpufreq_generic_init\<close>: the framework's table registration, given the policy, the
    table and the transition latency.
\<close>

record ('f, 'p) platform =
  CONFIG_MYTEE :: bool
  rpi_firmware_property ::
    "bool \<Rightarrow> 'f \<Rightarrow> rpi_firmware_property_tag \<Rightarrow> packet \<Rightarrow> int \<times> packet \<times> 'f"
  cpufreq_generic_init ::
    "'p cpufreq_policy_scheme \<Rightarrow> cpufreq_frequency_table list \<Rightarrow> u32
       \<Rightarrow> int \<times> 'p cpufreq_policy_scheme"

definition rpi_firmware_get :: "'f world \<Rightarrow> bool" where
  "rpi_firmware_get w = fw_handle w"

definition log_event :: "event \<Rightarrow> 'f world \<Rightarrow> 'f world" where
  "log_event e w = w\<lparr>trace := trace w @ [e]\<rparr>"

text \<open>The mailbox requests recorded in a trace.\<close>

fun property_calls :: "event list \<Rightarrow> (rpi_firmware_property_tag \<times> packet) list" where
  "property_calls [] = []"
| "property_calls (Ev_property t p # es) = (t, p) # property_calls es"
| "property_calls (_ # es) = property_calls es"

subsection \<open>The clock property channel\<close>

text \<open>
  The condition of the \<^verbatim>\<open>goto exit\<close> in \<^verbatim>\<open>bcm2835_cpufreq_clock_property\<close>: the
  gate exists only under \<^verbatim>\<open>CONFIG_MYTEE\<close>, and blocks when either flag word is 1.
\<close>

definition gate_blocked :: "('f, 'p) platform \<Rightarrow> 'f world \<Rightarrow> bool" where
  "gate_blocked P w \<longleftrightarrow>
     CONFIG_MYTEE P \<and>
     (trusted_display_mmap_flag w = 1 \<or> trusted_display_write_flag w = 1)"

text \<open>
  \<^verbatim>\<open>bcm2835_cpufreq_clock_property(tag, id, val)\<close>. The argument \<open>v\<close> is \<^verbatim>\<open>*val\<close>
  on entry; the second component of the result is \<^verbatim>\<open>*val\<close> on return.
\<close>

definition bcm2835_cpufreq_clock_property ::
  "('f, 'p) platform \<Rightarrow> rpi_firmware_property_tag \<Rightarrow> u32 \<Rightarrow> u32 \<Rightarrow> 'f world
     \<Rightarrow> int \<times> u32 \<times> 'f world" where
  "bcm2835_cpufreq_clock_property P tag ident v w =
     (let fw = rpi_firmware_get w;
          w1 = (if CONFIG_MYTEE P then log_event Ev_up_priv w else w);
          skip = gate_blocked P w1;
          w2 = (if CONFIG_MYTEE P then log_event Ev_down_priv w1 else w1)
      in if skip then (0, v, w2)
         else
           let pkt = \<lparr>packet_id = ident, packet_val = v\<rparr>;
               (ret, pkt', f') = rpi_firmware_property P fw (fw_state w2) tag pkt;
               w3 = log_event (Ev_property tag pkt) (w2\<lparr>fw_state := f'\<rparr>)
           in if ret \<noteq> 0 then (ret, v, w3)
              else (0, packet_val pkt', w3))"

text \<open>
  \<^verbatim>\<open>bcm2835_cpufreq_set_clock(int cur_rate, int arm_rate)\<close>. The product
  \<^verbatim>\<open>arm_rate * 1000\<close> is taken in \<^verbatim>\<open>int\<close> and stored in a \<^verbatim>\<open>u32\<close>:
  the low 32 bits of the product. \<^verbatim>\<open>cur_rate\<close> feeds the debug print only.
\<close>

definition bcm2835_cpufreq_set_clock ::
  "('f, 'p) platform \<Rightarrow> s32 \<Rightarrow> s32 \<Rightarrow> 'f world \<Rightarrow> u32 \<times> 'f world" where
  "bcm2835_cpufreq_set_clock P cur_rate arm_rate w =
     (let rate = arm_rate * 1000;
          (ret, rate', w') =
             bcm2835_cpufreq_clock_property P RPI_FIRMWARE_SET_CLOCK_RATE
               VCMSG_ID_ARM_CLOCK rate w
      in if ret \<noteq> 0 then (0, w')
         else (rate' div 1000, w'))"

text \<open>
  \<^verbatim>\<open>bcm2835_cpufreq_get_clock(tag)\<close>. The local \<^verbatim>\<open>u32 rate\<close> is declared without
  an initialiser; \<open>rate0\<close> is whatever its stack slot holds on entry.
\<close>

definition bcm2835_cpufreq_get_clock ::
  "('f, 'p) platform \<Rightarrow> rpi_firmware_property_tag \<Rightarrow> u32 \<Rightarrow> 'f world \<Rightarrow> u32 \<times> 'f world" where
  "bcm2835_cpufreq_get_clock P tag rate0 w =
     (let (ret, rate, w') =
             bcm2835_cpufreq_clock_property P tag VCMSG_ID_ARM_CLOCK rate0 w
      in if ret \<noteq> 0 then (0, w')
         else (rate div 1000, w'))"

subsection \<open>The driver operations\<close>

definition transition_latency :: u32 where
  "transition_latency = 355000"

text \<open>
  \<^verbatim>\<open>bcm2835_cpufreq_driver_init(policy)\<close>; \<open>j1\<close> and \<open>j2\<close> are the initial contents
  of the \<^verbatim>\<open>rate\<close> local in the two \<^verbatim>\<open>get_clock\<close> calls.
\<close>

definition bcm2835_cpufreq_driver_init ::
  "('f, 'p) platform \<Rightarrow> 'p cpufreq_policy_scheme \<Rightarrow> u32 \<Rightarrow> u32 \<Rightarrow> driver_state \<Rightarrow> 'f world
     \<Rightarrow> int \<times> driver_state \<times> 'p cpufreq_policy_scheme \<times> 'f world" where
  "bcm2835_cpufreq_driver_init P policy j1 j2 s w =
     (if \<not> rpi_firmware_get w then (- ENODEV, s, policy, w)
      else
        let (mn, w1) = bcm2835_cpufreq_get_clock P RPI_FIRMWARE_GET_MIN_CLOCK_RATE j1 w;
            s1 = s\<lparr>min_frequency := mn\<rparr>;
            (mx, w2) = bcm2835_cpufreq_get_clock P RPI_FIRMWARE_GET_MAX_CLOCK_RATE j2 w1;
            s2 = s1\<lparr>max_frequency := mx\<rparr>;
            tbl =
              (if min_frequency s2 = max_frequency s2 then
                 set_frequency 1 CPUFREQ_TABLE_END
                   (set_frequency 0 (min_frequency s2) (bcm2835_freq_table s2))
               else
                 set_frequency 2 CPUFREQ_TABLE_END
                   (set_frequency 1 (max_frequency s2)
                      (set_frequency 0 (min_frequency s2) (bcm2835_freq_table s2))));
            s3 = s2\<lparr>bcm2835_freq_table := tbl\<rparr>;
            (ret, policy') =
               cpufreq_generic_init P policy (bcm2835_freq_table s3) transition_latency
        in (ret, s3, policy', w2))"

text \<open>\<^verbatim>\<open>bcm2835_cpufreq_driver_target_index(policy, state)\<close>.\<close>

definition bcm2835_cpufreq_driver_target_index ::
  "('f, 'p) platform \<Rightarrow> 'p cpufreq_policy_scheme \<Rightarrow> u32 \<Rightarrow> driver_state \<Rightarrow> 'f world
     \<Rightarrow> int \<times> driver_state \<times> 'f world" where
  "bcm2835_cpufreq_driver_target_index P policy state s w =
     (let target_freq = (if state = 0 then min_frequency s else max_frequency s);
          (cur', w') = bcm2835_cpufreq_set_clock P (cur policy) target_freq w
      in if cur' = 0 then (- EINVAL, s, w')
         else (0, s, w'))"

text \<open>
  \<^verbatim>\<open>bcm2835_cpufreq_driver_get(cpu)\<close>; \<open>j\<close> is the initial content of the
  \<^verbatim>\<open>rate\<close> local of its \<^verbatim>\<open>get_clock\<close> call.
\<close>

definition bcm2835_cpufreq_driver_get ::
  "('f, 'p) platform \<Rightarrow> u32 \<Rightarrow> u32 \<Rightarrow> driver_state \<Rightarrow> 'f world \<Rightarrow> u32 \<times> driver_state \<times> 'f world" where
  "bcm2835_cpufreq_driver_get P cpu j s w =
     (let (actual_rate, w') = bcm2835_cpufreq_get_clock P RPI_FIRMWARE_GET_CLOCK_RATE j w
      in (if actual_rate \<le> min_frequency s then min_frequency s else max_frequency s, s, w'))"

subsection \<open>Notions used in the statements\<close>

text \<open>
  What the two privilege calls around the flag test leave in the world: two trace
  entries under \<^verbatim>\<open>CONFIG_MYTEE\<close>, nothing otherwise.
\<close>

definition pass_gate :: "('f, 'p) platform \<Rightarrow> 'f world \<Rightarrow> 'f world" where
  "pass_gate P w =
     (if CONFIG_MYTEE P then log_event Ev_down_priv (log_event Ev_up_priv w) else w)"

text \<open>
  Modelled from the spec: the framework's walk over the table is not part of the driver
  file. "The table's last populated slot is always the sentinel; consumers must stop
  iteration there": the operating points of a table are the frequencies in front of the
  first \<^verbatim>\<open>CPUFREQ_TABLE_END\<close>.
\<close>

definition table_entries :: "cpufreq_frequency_table list \<Rightarrow> u32 list" where
  "table_entries tbl = takeWhile (\<lambda>f. f \<noteq> CPUFREQ_TABLE_END) (map frequency tbl)"

text \<open>
  The driver states that can arise: the zeroed globals at module load, and whatever any
  sequence of calls of the three entry points makes of them, in any world and with any
  stack contents.
\<close>

inductive reachable :: "('f, 'p) platform \<Rightarrow> driver_state \<Rightarrow> bool"
  for P :: "('f, 'p) platform" where
  at_load: "reachable P initial_state"
| after_init:
    "reachable P s \<Longrightarrow>
     bcm2835_cpufreq_driver_init P policy j1 j2 s w = (ret, s', policy', w') \<Longrightarrow>
     reachable P s'"
| after_target_index:
    "reachable P s \<Longrightarrow>
     bcm2835_cpufreq_driver_target_index P policy state s w = (ret, s', w') \<Longrightarrow>
     reachable P s'"
| after_get:
    "reachable P s \<Longrightarrow>
     bcm2835_cpufreq_driver_get P cpu j s w = (r, s', w') \<Longrightarrow>
     reachable P s'"

subsection \<open>A concrete firmware for the examples\<close>

text \<open>
  A co-processor with an ARM clock between \<open>clk_min\<close> and \<open>clk_max\<close> Hz, currently at
  \<open>clk_cur\<close>, that answers the four requests and fails with \<^verbatim>\<open>-EIO\<close> on the tags in
  \<open>clk_broken\<close>; and a framework whose registration accepts every table.
\<close>

record arm_clock =
  clk_min :: u32
  clk_max :: u32
  clk_cur :: u32
  clk_broken :: "rpi_firmware_property_tag list"

fun example_property ::
  "bool \<Rightarrow> arm_clock \<Rightarrow> rpi_firmware_property_tag \<Rightarrow> packet \<Rightarrow> int \<times> packet \<times> arm_clock" where
  "example_property fw f tag p =
     (if tag \<in> set (clk_broken f) then (- 5, p, f)
      else case tag of
        RPI_FIRMWARE_GET_CLOCK_RATE \<Rightarrow> (0, p\<lparr>packet_val := clk_cur f\<rparr>, f)
      | RPI_FIRMWARE_GET_MIN_CLOCK_RATE \<Rightarrow> (0, p\<lparr>packet_val := clk_min f\<rparr>, f)
      | RPI_FIRMWARE_GET_MAX_CLOCK_RATE \<Rightarrow> (0, p\<lparr>packet_val := clk_max f\<rparr>, f)
      | RPI_FIRMWARE_SET_CLOCK_RATE \<Rightarrow> (0, p, f\<lparr>clk_cur := packet_val p\<rparr>))"

fun example_generic_init ::
  "cpufreq_policy \<Rightarrow> cpufreq_frequency_table list \<Rightarrow> u32 \<Rightarrow> int \<times> cpufreq_policy" where
  "example_generic_init policy tbl latency = (0, policy)"

definition example_platform :: "bool \<Rightarrow> (arm_clock, unit) platform" where
  "example_platform mytee =
     \<lparr>CONFIG_MYTEE = mytee, rpi_firmware_property = example_property,
      cpufreq_generic_init = example_generic_init\<rparr>"

definition example_clock :: arm_clock where
  "example_clock =
     \<lparr>clk_min = 600000000, clk_max = 1500000000, clk_cur = 1200000000, clk_broken = []\<rparr>"

definition example_world :: "arm_clock world" where
  "example_world =
     \<lparr>fw_handle = True, fw_state = example_clock,
      trusted_display_mmap_flag = 0, trusted_display_write_flag = 0, trace = []\<rparr>"

text \<open>The same world while a trusted-display write is in progress.\<close>

definition blocked_world :: "arm_clock world" where
  "blocked_world = example_world\<lparr>trusted_display_write_flag := 1\<rparr>"

text \<open>The same world with a firmware that refuses the GET-maximum request.\<close>

definition max_fails_world :: "arm_clock world" where
  "max_fails_world =
     example_world\<lparr>fw_state := example_clock\<lparr>clk_broken := [RPI_FIRMWARE_GET_MAX_CLOCK_RATE]\<rparr>\<rparr>"

text \<open>The same world with a firmware that refuses the GET-minimum and GET-current requests.\<close>

definition min_cur_fail_world :: "arm_clock world" where
  "min_cur_fail_world =
     example_world\<lparr>fw_state := example_clock\<lparr>clk_broken :=
       [RPI_FIRMWARE_GET_MIN_CLOCK_RATE, RPI_FIRMWARE_GET_CLOCK_RATE]\<rparr>\<rparr>"

text \<open>The same world with a firmware that refuses the SET request.\<close>

definition set_fails_world :: "arm_clock world" where
  "set_fails_world =
     example_world\<lparr>fw_state := example_clock\<lparr>clk_broken := [RPI_FIRMWARE_SET_CLOCK_RATE]\<rparr>\<rparr>"

text \<open>The driver state after a successful init in \<open>example_world\<close>.\<close>

definition example_state :: driver_state where
  "example_state =
     \<lparr>min_frequency = 600000, max_frequency = 1500000,
      bcm2835_freq_table =
        [\<lparr>flags = 0, driver_data = 0, frequency = 600000\<rparr>,
         \<lparr>flags = 0, driver_data = 0, frequency = 1500000\<rparr>,
         \<lparr>flags = 0, driver_data = 0, frequency = CPUFREQ_TABLE_END\<rparr>]\<rparr>"

section \<open>Basic facts\<close>

lemma property_calls_append:
  "property_calls (xs @ ys) = property_calls xs @ property_calls ys"
  by (induction xs rule: property_calls.induct) simp_all

lemma pass_gate_fields [simp]:
  "fw_handle (pass_gate P w) = fw_handle w"
  "fw_state (pass_gate P w) = fw_state w"
  "trusted_display_mmap_flag (pass_gate P w) = trusted_display_mmap_flag w"
  "trusted_display_write_flag (pass_gate P w) = trusted_display_write_flag w"
  "property_calls (trace (pass_gate P w)) = property_calls (trace w)"
  by (simp_all add: pass_gate_def log_event_def property_calls_append)

lemma gate_blocked_pass_gate [simp]: "gate_blocked P (pass_gate P w) = gate_blocked P w"
  by (simp add: gate_blocked_def)

subsection \<open>The channel, by case\<close>

lemma clock_property_blocked:
  "gate_blocked P w \<Longrightarrow>
   bcm2835_cpufreq_clock_property P tag ident v w = (0, v, pass_gate P w)"
  by (simp add: bcm2835_cpufreq_clock_property_def gate_blocked_def pass_gate_def log_event_def)

lemma clock_property_open:
  assumes "\<not> gate_blocked P w"
    and "rpi_firmware_property P (fw_handle w) (fw_state w) tag
           \<lparr>packet_id = ident, packet_val = v\<rparr> = (r, p, f)"
  shows "bcm2835_cpufreq_clock_property P tag ident v w =
           (r, if r \<noteq> 0 then v else packet_val p,
            log_event (Ev_property tag \<lparr>packet_id = ident, packet_val = v\<rparr>)
              ((pass_gate P w)\<lparr>fw_state := f\<rparr>))"
  using assms
  by (auto simp add: bcm2835_cpufreq_clock_property_def gate_blocked_def pass_gate_def
      log_event_def rpi_firmware_get_def Let_def)

lemma get_clock_blocked:
  "gate_blocked P w \<Longrightarrow>
   bcm2835_cpufreq_get_clock P tag rate0 w = (rate0 div 1000, pass_gate P w)"
  by (simp add: bcm2835_cpufreq_get_clock_def clock_property_blocked)

lemma get_clock_open:
  assumes "\<not> gate_blocked P w"
    and "rpi_firmware_property P (fw_handle w) (fw_state w) tag
           \<lparr>packet_id = VCMSG_ID_ARM_CLOCK, packet_val = rate0\<rparr> = (r, p, f)"
  shows "bcm2835_cpufreq_get_clock P tag rate0 w =
           (if r \<noteq> 0 then 0 else packet_val p div 1000,
            log_event (Ev_property tag \<lparr>packet_id = VCMSG_ID_ARM_CLOCK, packet_val = rate0\<rparr>)
              ((pass_gate P w)\<lparr>fw_state := f\<rparr>))"
  by (simp add: bcm2835_cpufreq_get_clock_def clock_property_open [OF assms])

lemma set_clock_blocked:
  "gate_blocked P w \<Longrightarrow>
   bcm2835_cpufreq_set_clock P c a w = (a * 1000 div 1000, pass_gate P w)"
  by (simp add: bcm2835_cpufreq_set_clock_def clock_property_blocked)

lemma set_clock_open:
  assumes "\<not> gate_blocked P w"
    and "rpi_firmware_property P (fw_handle w) (fw_state w) RPI_FIRMWARE_SET_CLOCK_RATE
           \<lparr>packet_id = VCMSG_ID_ARM_CLOCK, packet_val = a * 1000\<rparr> = (r, p, f)"
  shows "bcm2835_cpufreq_set_clock P c a w =
           (if r \<noteq> 0 then 0 else packet_val p div 1000,
            log_event (Ev_property RPI_FIRMWARE_SET_CLOCK_RATE
                         \<lparr>packet_id = VCMSG_ID_ARM_CLOCK, packet_val = a * 1000\<rparr>)
              ((pass_gate P w)\<lparr>fw_state := f\<rparr>))"
  by (simp add: bcm2835_cpufreq_set_clock_def clock_property_open [OF assms])

subsection \<open>Rates in 32 bits\<close>

lemma khz_bound: "unat ((x :: u32) div 1000) \<le> 4294967"
proof -
  have "unat x < 2 ^ 32" using unsigned_less [of x, where ?'a = nat] by simp
  then have "unat x div 1000 \<le> 4294967" by simp
  then show ?thesis by (simp add: unat_div)
qed

lemma khz_to_hz_exact:
  assumes "unat (k :: u32) \<le> 4294967"
  shows "unat (k * 1000) = unat k * 1000"
proof -
  have "unat k * 1000 < 2 ^ 32" using assms by simp
  then show ?thesis by (simp add: unat_word_ariths)
qed

lemma khz_not_table_end: "unat (k :: u32) \<le> 4294967 \<Longrightarrow> k \<noteq> CPUFREQ_TABLE_END"
  by (auto simp add: CPUFREQ_TABLE_END_def)

lemma khz_le_table_end: "unat (k :: u32) \<le> 4294967 \<Longrightarrow> k \<le> CPUFREQ_TABLE_END"
  by (simp add: CPUFREQ_TABLE_END_def word_le_nat_alt)

lemma get_clock_bound: "unat (fst (bcm2835_cpufreq_get_clock P tag rate0 w)) \<le> 4294967"
  by (simp add: bcm2835_cpufreq_get_clock_def Let_def khz_bound split: prod.splits)


subsection \<open>The table and the bounds after init\<close>


lemma three_slots:
  assumes "length (tbl :: 'a list) = 3"
  obtains x y z where "tbl = [x, y, z]"
proof -
  from assms obtain x t1 where 1: "tbl = x # t1" "length t1 = 2"
    by (cases tbl) auto
  then obtain y t2 where 2: "t1 = y # t2" "length t2 = 1"
    by (cases t1) auto
  then obtain z where "t2 = [z]"
    by (cases t2) auto
  with 1 2 that show thesis by simp
qed

lemma length_set_frequency [simp]: "length (set_frequency i v tbl) = length tbl"
  by (simp add: set_frequency_def)

lemma table_one_point:
  assumes "length tbl = 3"
  shows "map frequency (set_frequency 1 e (set_frequency 0 a tbl)) = [a, e, frequency (tbl ! 2)]"
proof -
  from assms obtain x y z where "tbl = [x, y, z]" by (rule three_slots)
  then show ?thesis by (simp add: set_frequency_def)
qed

lemma table_two_points:
  assumes "length tbl = 3"
  shows "map frequency (set_frequency 2 e (set_frequency 1 b (set_frequency 0 a tbl))) = [a, b, e]"
proof -
  from assms obtain x y z where "tbl = [x, y, z]" by (rule three_slots)
  then show ?thesis by (simp add: set_frequency_def)
qed

lemma init_no_firmware:
  "\<not> fw_handle w \<Longrightarrow>
   bcm2835_cpufreq_driver_init P policy j1 j2 s w = (- ENODEV, s, policy, w)"
  by (simp add: bcm2835_cpufreq_driver_init_def rpi_firmware_get_def)

lemma init_fields:
  assumes "fw_handle w"
    and "bcm2835_cpufreq_driver_init P policy j1 j2 s w = (ret, s', policy', w')"
    and "bcm2835_cpufreq_get_clock P RPI_FIRMWARE_GET_MIN_CLOCK_RATE j1 w = (mn, w1)"
    and "bcm2835_cpufreq_get_clock P RPI_FIRMWARE_GET_MAX_CLOCK_RATE j2 w1 = (mx, w2)"
  shows "min_frequency s' = mn" and "max_frequency s' = mx" and "w' = w2"
    and "bcm2835_freq_table s' =
           (if mn = mx then
              set_frequency 1 CPUFREQ_TABLE_END (set_frequency 0 mn (bcm2835_freq_table s))
            else
              set_frequency 2 CPUFREQ_TABLE_END
                (set_frequency 1 mx (set_frequency 0 mn (bcm2835_freq_table s))))"
    and "cpufreq_generic_init P policy (bcm2835_freq_table s') transition_latency = (ret, policy')"
  using assms
  by (auto simp add: bcm2835_cpufreq_driver_init_def rpi_firmware_get_def Let_def
      split: prod.splits if_splits)

lemma init_frequencies:
  assumes "fw_handle w" and "length (bcm2835_freq_table s) = 3"
    and "bcm2835_cpufreq_driver_init P policy j1 j2 s w = (ret, s', policy', w')"
  shows "map frequency (bcm2835_freq_table s') =
           (if min_frequency s' = max_frequency s' then
              [min_frequency s', CPUFREQ_TABLE_END, frequency (bcm2835_freq_table s ! 2)]
            else [min_frequency s', max_frequency s', CPUFREQ_TABLE_END])"
proof -
  obtain mn w1 where g1: "bcm2835_cpufreq_get_clock P RPI_FIRMWARE_GET_MIN_CLOCK_RATE j1 w = (mn, w1)"
    by (cases "bcm2835_cpufreq_get_clock P RPI_FIRMWARE_GET_MIN_CLOCK_RATE j1 w")
  obtain mx w2 where g2: "bcm2835_cpufreq_get_clock P RPI_FIRMWARE_GET_MAX_CLOCK_RATE j2 w1 = (mx, w2)"
    by (cases "bcm2835_cpufreq_get_clock P RPI_FIRMWARE_GET_MAX_CLOCK_RATE j2 w1")
  note f = init_fields [OF assms(1) assms(3) g1 g2]
  show ?thesis
    using table_one_point [OF assms(2)] table_two_points [OF assms(2)]
    by (simp add: f)
qed

lemma init_bounds:
  assumes "fw_handle w"
    and "bcm2835_cpufreq_driver_init P policy j1 j2 s w = (ret, s', policy', w')"
  shows "unat (min_frequency s') \<le> 4294967" and "unat (max_frequency s') \<le> 4294967"
proof -
  obtain mn w1 where g1: "bcm2835_cpufreq_get_clock P RPI_FIRMWARE_GET_MIN_CLOCK_RATE j1 w = (mn, w1)"
    by (cases "bcm2835_cpufreq_get_clock P RPI_FIRMWARE_GET_MIN_CLOCK_RATE j1 w")
  obtain mx w2 where g2: "bcm2835_cpufreq_get_clock P RPI_FIRMWARE_GET_MAX_CLOCK_RATE j2 w1 = (mx, w2)"
    by (cases "bcm2835_cpufreq_get_clock P RPI_FIRMWARE_GET_MAX_CLOCK_RATE j2 w1")
  note f = init_fields [OF assms g1 g2]
  from get_clock_bound [of P RPI_FIRMWARE_GET_MIN_CLOCK_RATE j1 w] g1 f(1)
  show "unat (min_frequency s') \<le> 4294967" by simp
  from get_clock_bound [of P RPI_FIRMWARE_GET_MAX_CLOCK_RATE j2 w1] g2 f(2)
  show "unat (max_frequency s') \<le> 4294967" by simp
qed

lemma init_length:
  "bcm2835_cpufreq_driver_init P policy j1 j2 s w = (ret, s', policy', w') \<Longrightarrow>
   length (bcm2835_freq_table s') = length (bcm2835_freq_table s)"
  by (auto simp add: bcm2835_cpufreq_driver_init_def Let_def split: prod.splits if_splits)

lemma init_entries:
  assumes "fw_handle w" and "length (bcm2835_freq_table s) = 3"
    and "bcm2835_cpufreq_driver_init P policy j1 j2 s w = (ret, s', policy', w')"
  shows "table_entries (bcm2835_freq_table s') =
           (if min_frequency s' = max_frequency s' then [min_frequency s']
            else [min_frequency s', max_frequency s'])"
  using init_bounds [OF assms(1) assms(3)] khz_not_table_end
  by (simp add: table_entries_def init_frequencies [OF assms])

subsection \<open>What the two other entry points leave alone, and the invariant\<close>

lemma target_index_state:
  "bcm2835_cpufreq_driver_target_index P policy state s w = (ret, s', w') \<Longrightarrow> s' = s"
  by (auto simp add: bcm2835_cpufreq_driver_target_index_def Let_def split: prod.splits if_splits)

lemma get_state:
  "bcm2835_cpufreq_driver_get P cpu j s w = (r, s', w') \<Longrightarrow> s' = s"
  by (auto simp add: bcm2835_cpufreq_driver_get_def Let_def split: prod.splits)

lemma reachable_inv:
  "reachable P s \<Longrightarrow>
   unat (min_frequency s) \<le> 4294967 \<and> unat (max_frequency s) \<le> 4294967 \<and>
   length (bcm2835_freq_table s) = 3"
proof (induction rule: reachable.induct)
  case at_load
  show ?case by (simp add: initial_state_def)
next
  case (after_init s policy j1 j2 w ret s' policy' w')
  show ?case
  proof (cases "fw_handle w")
    case True
    with after_init show ?thesis
      using init_bounds [OF True after_init.hyps(2)] init_length [OF after_init.hyps(2)]
      by simp
  next
    case False
    with after_init show ?thesis by (simp add: init_no_firmware)
  qed
next
  case (after_target_index s policy state w ret s' w')
  from target_index_state [OF after_target_index.hyps(2)] after_target_index.IH
  show ?case by simp
next
  case (after_get s cpu j w r s' w')
  from get_state [OF after_get.hyps(2)] after_get.IH
  show ?case by simp
qed



subsection \<open>Init with the gate open\<close>

lemma gate_blocked_after_call [simp]:
  "gate_blocked P (log_event e w) = gate_blocked P w"
  "gate_blocked P (w\<lparr>fw_state := f\<rparr>) = gate_blocked P w"
  by (simp_all add: gate_blocked_def log_event_def)

lemma init_open:
  assumes "fw_handle w" and "\<not> gate_blocked P w"
    and "rpi_firmware_property P (fw_handle w) (fw_state w) RPI_FIRMWARE_GET_MIN_CLOCK_RATE
           \<lparr>packet_id = VCMSG_ID_ARM_CLOCK, packet_val = j1\<rparr> = (r1, p1, f1)"
    and "rpi_firmware_property P (fw_handle w) f1 RPI_FIRMWARE_GET_MAX_CLOCK_RATE
           \<lparr>packet_id = VCMSG_ID_ARM_CLOCK, packet_val = j2\<rparr> = (r2, p2, f2)"
    and "bcm2835_cpufreq_driver_init P policy j1 j2 s w = (ret, s', policy', w')"
  shows "min_frequency s' = (if r1 \<noteq> 0 then 0 else packet_val p1 div 1000)"
    and "max_frequency s' = (if r2 \<noteq> 0 then 0 else packet_val p2 div 1000)"
    and "cpufreq_generic_init P policy (bcm2835_freq_table s') transition_latency = (ret, policy')"
proof -
  let ?w1 = "log_event (Ev_property RPI_FIRMWARE_GET_MIN_CLOCK_RATE
                \<lparr>packet_id = VCMSG_ID_ARM_CLOCK, packet_val = j1\<rparr>)
              ((pass_gate P w)\<lparr>fw_state := f1\<rparr>)"
  note g1 = get_clock_open [OF assms(2) assms(3)]
  have o: "\<not> gate_blocked P ?w1" using assms(2) by simp
  have t: "rpi_firmware_property P (fw_handle ?w1) (fw_state ?w1)
      RPI_FIRMWARE_GET_MAX_CLOCK_RATE
      \<lparr>packet_id = VCMSG_ID_ARM_CLOCK, packet_val = j2\<rparr> = (r2, p2, f2)"
    using assms(4) by (simp add: log_event_def)
  note g2 = get_clock_open [OF o t]
  note f = init_fields [OF assms(1) assms(5) g1 g2]
  show "min_frequency s' = (if r1 \<noteq> 0 then 0 else packet_val p1 div 1000)"
    by (rule f(1))
  show "max_frequency s' = (if r2 \<noteq> 0 then 0 else packet_val p2 div 1000)"
    by (rule f(2))
  show "cpufreq_generic_init P policy (bcm2835_freq_table s') transition_latency = (ret, policy')"
    by (rule f(5))
qed

lemma khz_mono: "(a :: u32) \<le> b \<Longrightarrow> a div 1000 \<le> b div 1000"
  by (simp add: word_le_nat_alt unat_div div_le_mono)

section \<open>The claims\<close>

text \<open>The definitions a concrete run unfolds.\<close>

lemmas driver_eval =
  bcm2835_cpufreq_driver_init_def bcm2835_cpufreq_driver_target_index_def
  bcm2835_cpufreq_driver_get_def bcm2835_cpufreq_get_clock_def bcm2835_cpufreq_set_clock_def
  bcm2835_cpufreq_clock_property_def gate_blocked_def rpi_firmware_get_def log_event_def
  set_frequency_def VCMSG_ID_ARM_CLOCK_def transition_latency_def CPUFREQ_TABLE_END_def
  ENODEV_def EINVAL_def initial_state_def example_platform_def example_clock_def
  example_world_def blocked_world_def max_fails_world_def set_fails_world_def
  min_cur_fail_world_def example_state_def Let_def

text \<open>
  Claim C7. A call of the channel while the gate is blocked makes no mailbox request and
  returns success with the caller's value as it was; the co-processor is not touched.
  When the gate is absent (\<^verbatim>\<open>CONFIG_MYTEE\<close> off) or not blocked, the call makes
  exactly one mailbox request, carrying the tag, the identifier and the caller's value.
\<close>

theorem clock_property_gate:
  assumes "bcm2835_cpufreq_clock_property P tag ident v w = (ret, v', w')"
  shows "(gate_blocked P w \<longrightarrow>
            ret = 0 \<and> v' = v \<and> fw_state w' = fw_state w \<and>
            property_calls (trace w') = property_calls (trace w)) \<and>
         (\<not> CONFIG_MYTEE P \<or> \<not> gate_blocked P w \<longrightarrow>
            property_calls (trace w') =
              property_calls (trace w) @ [(tag, \<lparr>packet_id = ident, packet_val = v\<rparr>)])"
proof (cases "gate_blocked P w")
  case True
  then have "CONFIG_MYTEE P" by (simp add: gate_blocked_def)
  with True assms show ?thesis by (auto simp add: clock_property_blocked)
next
  case False
  obtain r p f where "rpi_firmware_property P (fw_handle w) (fw_state w) tag
      \<lparr>packet_id = ident, packet_val = v\<rparr> = (r, p, f)"
    by (cases "rpi_firmware_property P (fw_handle w) (fw_state w) tag
      \<lparr>packet_id = ident, packet_val = v\<rparr>")
  from clock_property_open [OF False this] assms False show ?thesis
    by (auto simp add: log_event_def property_calls_append)
qed

theorem clock_property_gate_witness:
  "gate_blocked (example_platform True) blocked_world \<and>
   bcm2835_cpufreq_clock_property (example_platform True) RPI_FIRMWARE_SET_CLOCK_RATE
      VCMSG_ID_ARM_CLOCK 600000000 blocked_world =
     (0, 600000000, blocked_world\<lparr>trace := [Ev_up_priv, Ev_down_priv]\<rparr>) \<and>
   property_calls [Ev_up_priv, Ev_down_priv] = property_calls (trace blocked_world) \<and>
   \<not> CONFIG_MYTEE (example_platform False) \<and>
   bcm2835_cpufreq_clock_property (example_platform False) RPI_FIRMWARE_GET_CLOCK_RATE
      VCMSG_ID_ARM_CLOCK 7 blocked_world =
     (0, 1200000000,
      blocked_world\<lparr>trace := [Ev_property RPI_FIRMWARE_GET_CLOCK_RATE
                                 \<lparr>packet_id = 3, packet_val = 7\<rparr>]\<rparr>) \<and>
   property_calls [Ev_property RPI_FIRMWARE_GET_CLOCK_RATE \<lparr>packet_id = 3, packet_val = 7\<rparr>] =
     property_calls (trace blocked_world) @
       [(RPI_FIRMWARE_GET_CLOCK_RATE, \<lparr>packet_id = VCMSG_ID_ARM_CLOCK, packet_val = 7\<rparr>)]"
proof -
  have b: "gate_blocked (example_platform True) blocked_world"
    by (simp add: driver_eval)
  have 1: "bcm2835_cpufreq_clock_property (example_platform True) RPI_FIRMWARE_SET_CLOCK_RATE
      VCMSG_ID_ARM_CLOCK 600000000 blocked_world =
     (0, 600000000, blocked_world\<lparr>trace := [Ev_up_priv, Ev_down_priv]\<rparr>)"
    by (simp add: driver_eval)
  have c: "\<not> CONFIG_MYTEE (example_platform False)"
    by (simp add: driver_eval)
  have 2: "bcm2835_cpufreq_clock_property (example_platform False) RPI_FIRMWARE_GET_CLOCK_RATE
      VCMSG_ID_ARM_CLOCK 7 blocked_world =
     (0, 1200000000,
      blocked_world\<lparr>trace := [Ev_property RPI_FIRMWARE_GET_CLOCK_RATE
                                 \<lparr>packet_id = 3, packet_val = 7\<rparr>]\<rparr>)"
    by (simp add: driver_eval)
  from clock_property_gate [OF 1] b clock_property_gate [OF 2] c 1 2
  show ?thesis by simp
qed

text \<open>
  Claim C6. When the existence probe \<^verbatim>\<open>rpi_firmware_get(NULL)\<close> fails, init returns
  \<^verbatim>\<open>-ENODEV\<close> and nothing else happens: the driver state and its table, the policy
  and the world (so also the trace: no clock rate was asked for) are as before.
\<close>

theorem init_without_firmware:
  assumes "\<not> rpi_firmware_get w"
  shows "bcm2835_cpufreq_driver_init P policy j1 j2 s w = (- ENODEV, s, policy, w)"
  using assms by (simp add: bcm2835_cpufreq_driver_init_def)

theorem init_without_firmware_witness:
  "\<not> rpi_firmware_get (example_world\<lparr>fw_handle := False\<rparr>) \<and>
   bcm2835_cpufreq_driver_init (example_platform True) \<lparr>cur = 0\<rparr> 0 0 initial_state
       (example_world\<lparr>fw_handle := False\<rparr>) =
     (- 19, initial_state, \<lparr>cur = 0\<rparr>, example_world\<lparr>fw_handle := False\<rparr>)"
proof -
  have h: "\<not> rpi_firmware_get (example_world\<lparr>fw_handle := False\<rparr>)"
    by (simp add: rpi_firmware_get_def)
  from init_without_firmware [OF h, of "example_platform True" "\<lparr>cur = 0\<rparr>" 0 0 initial_state] h
  show ?thesis by (simp add: ENODEV_def)
qed


text \<open>
  Claim C10. While the gate is blocked, the channel returns success without writing the
  caller's variable, so \<^verbatim>\<open>bcm2835_cpufreq_get_clock\<close> returns the stale content of
  its uninitialised local \<^verbatim>\<open>rate\<close> divided by 1000, for every tag, without a
  mailbox request and whatever the co-processor's clock is. The get operation snaps that
  value; init stores two such values as its bounds.
\<close>

theorem blocked_get_reads_uninitialised_rate:
  assumes "gate_blocked P w"
    and "bcm2835_cpufreq_driver_init P policy j1 j2 s w = (ret, s', policy', w')"
  shows "bcm2835_cpufreq_clock_property P tag VCMSG_ID_ARM_CLOCK stale w =
           (0, stale, pass_gate P w) \<and>
         bcm2835_cpufreq_get_clock P tag stale w = (stale div 1000, pass_gate P w) \<and>
         fw_state (pass_gate P w) = fw_state w \<and>
         property_calls (trace (pass_gate P w)) = property_calls (trace w) \<and>
         bcm2835_cpufreq_driver_get P cpu j s w =
           (if j div 1000 \<le> min_frequency s then min_frequency s else max_frequency s,
            s, pass_gate P w) \<and>
         (rpi_firmware_get w \<longrightarrow>
            min_frequency s' = j1 div 1000 \<and> max_frequency s' = j2 div 1000)"
proof -
  have g: "\<And>t r. bcm2835_cpufreq_get_clock P t r w = (r div 1000, pass_gate P w)"
    using assms(1) by (rule get_clock_blocked)
  have b': "gate_blocked P (pass_gate P w)" using assms(1) by simp
  have g': "\<And>t r. bcm2835_cpufreq_get_clock P t r (pass_gate P w) =
      (r div 1000, pass_gate P (pass_gate P w))"
    using b' by (rule get_clock_blocked)
  have i: "rpi_firmware_get w \<longrightarrow>
      min_frequency s' = j1 div 1000 \<and> max_frequency s' = j2 div 1000"
  proof
    assume "rpi_firmware_get w"
    then have h: "fw_handle w" by (simp add: rpi_firmware_get_def)
    from init_fields(1,2) [OF h assms(2) g g']
    show "min_frequency s' = j1 div 1000 \<and> max_frequency s' = j2 div 1000" by simp
  qed
  have d: "bcm2835_cpufreq_driver_get P cpu j s w =
           (if j div 1000 \<le> min_frequency s then min_frequency s else max_frequency s,
            s, pass_gate P w)"
    by (simp add: bcm2835_cpufreq_driver_get_def g)
  from clock_property_blocked [OF assms(1)] g i d show ?thesis by simp
qed

theorem blocked_get_reads_uninitialised_rate_witness:
  "gate_blocked (example_platform True) blocked_world \<and>
   bcm2835_cpufreq_driver_init (example_platform True) \<lparr>cur = 0\<rparr> 7000 9000 example_state
       blocked_world =
     (0,
      \<lparr>min_frequency = 7, max_frequency = 9,
       bcm2835_freq_table =
         [\<lparr>flags = 0, driver_data = 0, frequency = 7\<rparr>,
          \<lparr>flags = 0, driver_data = 0, frequency = 9\<rparr>,
          \<lparr>flags = 0, driver_data = 0, frequency = CPUFREQ_TABLE_END\<rparr>]\<rparr>,
      \<lparr>cur = 0\<rparr>,
      blocked_world\<lparr>trace := [Ev_up_priv, Ev_down_priv, Ev_up_priv, Ev_down_priv]\<rparr>) \<and>
   rpi_firmware_get blocked_world \<and>
   bcm2835_cpufreq_get_clock (example_platform True) RPI_FIRMWARE_GET_CLOCK_RATE 7000
       blocked_world = (7, pass_gate (example_platform True) blocked_world) \<and>
   clk_cur (fw_state blocked_world) = 1200000000 \<and>
   bcm2835_cpufreq_driver_get (example_platform True) 0 7000 example_state blocked_world =
     (600000, example_state, pass_gate (example_platform True) blocked_world)"
proof -
  have b: "gate_blocked (example_platform True) blocked_world"
    by (simp add: driver_eval)
  have i: "bcm2835_cpufreq_driver_init (example_platform True) \<lparr>cur = 0\<rparr> 7000 9000
       example_state blocked_world =
     (0,
      \<lparr>min_frequency = 7, max_frequency = 9,
       bcm2835_freq_table =
         [\<lparr>flags = 0, driver_data = 0, frequency = 7\<rparr>,
          \<lparr>flags = 0, driver_data = 0, frequency = 9\<rparr>,
          \<lparr>flags = 0, driver_data = 0, frequency = CPUFREQ_TABLE_END\<rparr>]\<rparr>,
      \<lparr>cur = 0\<rparr>,
      blocked_world\<lparr>trace := [Ev_up_priv, Ev_down_priv, Ev_up_priv, Ev_down_priv]\<rparr>)"
    by (simp add: driver_eval)
  have h: "rpi_firmware_get blocked_world" by (simp add: driver_eval)
  have c: "clk_cur (fw_state blocked_world) = 1200000000" by (simp add: driver_eval)
  have m: "(7000 :: u32) div 1000 = 7" "min_frequency example_state = 600000"
    by (simp_all add: example_state_def)
  from blocked_get_reads_uninitialised_rate
    [OF b i, where tag = RPI_FIRMWARE_GET_CLOCK_RATE and stale = 7000 and cpu = 0 and j = 7000] b i h c m
  show ?thesis by simp
qed

text \<open>
  Claim C2. The get operation never changes the driver state and always returns
  \<^verbatim>\<open>min_frequency\<close> or \<^verbatim>\<open>max_frequency\<close>. When the transport reports a current
  rate, the result is \<^verbatim>\<open>min_frequency\<close> if the rate divided by 1000 is at most
  \<^verbatim>\<open>min_frequency\<close>, and \<^verbatim>\<open>max_frequency\<close> otherwise.
\<close>

theorem get_snaps_to_operating_point:
  assumes "bcm2835_cpufreq_driver_get P cpu j s w = (r, s', w')"
    and "rpi_firmware_property P (fw_handle w) (fw_state w) RPI_FIRMWARE_GET_CLOCK_RATE
           \<lparr>packet_id = VCMSG_ID_ARM_CLOCK, packet_val = j\<rparr> = (ret, p, f)"
  shows "(r = min_frequency s \<or> r = max_frequency s) \<and> s' = s \<and>
         (\<not> gate_blocked P w \<and> ret = 0 \<longrightarrow>
            r = (if packet_val p div 1000 \<le> min_frequency s then min_frequency s
                 else max_frequency s) \<and>
            unat (packet_val p div 1000) = unat (packet_val p) div 1000)"
proof -
  have 1: "(r = min_frequency s \<or> r = max_frequency s) \<and> s' = s"
    using assms(1)
    by (auto simp add: bcm2835_cpufreq_driver_get_def Let_def split: prod.splits if_splits)
  have 2: "r = (if packet_val p div 1000 \<le> min_frequency s then min_frequency s
                 else max_frequency s)" if "\<not> gate_blocked P w" "ret = 0"
    using assms(1) get_clock_open [OF that(1) assms(2)] that(2)
    by (auto simp add: bcm2835_cpufreq_driver_get_def)
  from 1 2 show ?thesis by (simp add: unat_div)
qed

theorem get_snaps_to_operating_point_witness:
  "bcm2835_cpufreq_driver_get (example_platform False) 0 7000 example_state example_world =
     (1500000, example_state,
      example_world\<lparr>trace := [Ev_property RPI_FIRMWARE_GET_CLOCK_RATE
                                  \<lparr>packet_id = 3, packet_val = 7000\<rparr>]\<rparr>) \<and>
   rpi_firmware_property (example_platform False) (fw_handle example_world)
       (fw_state example_world) RPI_FIRMWARE_GET_CLOCK_RATE
       \<lparr>packet_id = VCMSG_ID_ARM_CLOCK, packet_val = 7000\<rparr> =
     (0, \<lparr>packet_id = 3, packet_val = 1200000000\<rparr>, example_clock) \<and>
   \<not> gate_blocked (example_platform False) example_world \<and>
   \<not> (1200000000 :: u32) div 1000 \<le> min_frequency example_state \<and>
   max_frequency example_state = 1500000"
proof -
  have g: "bcm2835_cpufreq_driver_get (example_platform False) 0 7000 example_state
       example_world =
     (1500000, example_state,
      example_world\<lparr>trace := [Ev_property RPI_FIRMWARE_GET_CLOCK_RATE
                                  \<lparr>packet_id = 3, packet_val = 7000\<rparr>]\<rparr>)"
    by (simp add: driver_eval)
  have t: "rpi_firmware_property (example_platform False) (fw_handle example_world)
       (fw_state example_world) RPI_FIRMWARE_GET_CLOCK_RATE
       \<lparr>packet_id = VCMSG_ID_ARM_CLOCK, packet_val = 7000\<rparr> =
     (0, \<lparr>packet_id = 3, packet_val = 1200000000\<rparr>, example_clock)"
    by (simp add: driver_eval)
  have o: "\<not> gate_blocked (example_platform False) example_world"
    by (simp add: driver_eval)
  have m: "\<not> (1200000000 :: u32) div 1000 \<le> min_frequency example_state"
    "max_frequency example_state = 1500000"
    by (simp_all add: example_state_def)
  from get_snaps_to_operating_point [OF g t] g t o m show ?thesis by simp
qed


text \<open>
  Claim C3. The target-index operation takes \<^verbatim>\<open>min_frequency\<close> for index 0 and
  \<^verbatim>\<open>max_frequency\<close> for every other index, and makes one call of the channel, with
  the SET tag and the target multiplied by 1000. Unless the gate blocks it, that is
  exactly one mailbox request carrying that rate; the gate swallows it otherwise. In
  every reachable driver state the multiplication does not wrap.
\<close>

theorem target_index_request:
  assumes "bcm2835_cpufreq_driver_target_index P policy state s w = (ret, s', w')"
    and "target_freq = (if state = 0 then min_frequency s else max_frequency s)"
  shows "w' = snd (snd (bcm2835_cpufreq_clock_property P RPI_FIRMWARE_SET_CLOCK_RATE
                          VCMSG_ID_ARM_CLOCK (target_freq * 1000) w)) \<and>
         (\<not> gate_blocked P w \<longrightarrow>
            property_calls (trace w') =
              property_calls (trace w) @
                [(RPI_FIRMWARE_SET_CLOCK_RATE,
                  \<lparr>packet_id = VCMSG_ID_ARM_CLOCK, packet_val = target_freq * 1000\<rparr>)]) \<and>
         (gate_blocked P w \<longrightarrow> property_calls (trace w') = property_calls (trace w)) \<and>
         (reachable P s \<longrightarrow> unat (target_freq * 1000) = unat target_freq * 1000)"
proof -
  let ?c = "bcm2835_cpufreq_clock_property P RPI_FIRMWARE_SET_CLOCK_RATE
              VCMSG_ID_ARM_CLOCK (target_freq * 1000) w"
  have 1: "w' = snd (snd ?c)"
    using assms
    by (auto simp add: bcm2835_cpufreq_driver_target_index_def bcm2835_cpufreq_set_clock_def
        Let_def split: prod.splits if_splits)
  have 2: "property_calls (trace (snd (snd ?c))) =
             property_calls (trace w) @
               [(RPI_FIRMWARE_SET_CLOCK_RATE,
                 \<lparr>packet_id = VCMSG_ID_ARM_CLOCK, packet_val = target_freq * 1000\<rparr>)]"
    if o: "\<not> gate_blocked P w"
  proof -
    obtain r p f where "rpi_firmware_property P (fw_handle w) (fw_state w)
        RPI_FIRMWARE_SET_CLOCK_RATE
        \<lparr>packet_id = VCMSG_ID_ARM_CLOCK, packet_val = target_freq * 1000\<rparr> = (r, p, f)"
      by (cases "rpi_firmware_property P (fw_handle w) (fw_state w)
        RPI_FIRMWARE_SET_CLOCK_RATE
        \<lparr>packet_id = VCMSG_ID_ARM_CLOCK, packet_val = target_freq * 1000\<rparr>")
    from clock_property_open [OF o this] show ?thesis
      by (simp add: log_event_def property_calls_append)
  qed
  have 3: "property_calls (trace (snd (snd ?c))) = property_calls (trace w)"
    if "gate_blocked P w"
    using that by (simp add: clock_property_blocked)
  have 4: "unat (target_freq * 1000) = unat target_freq * 1000" if "reachable P s"
  proof -
    from reachable_inv [OF that] assms(2) have "unat target_freq \<le> 4294967" by simp
    then show ?thesis by (rule khz_to_hz_exact)
  qed
  from 1 2 3 4 show ?thesis by simp
qed

theorem target_index_request_witness:
  "bcm2835_cpufreq_driver_target_index (example_platform True) \<lparr>cur = 600000\<rparr> 1
       example_state example_world =
     (0, example_state,
      \<lparr>fw_handle = True, fw_state = example_clock\<lparr>clk_cur := 1500000000\<rparr>,
       trusted_display_mmap_flag = 0, trusted_display_write_flag = 0,
       trace = [Ev_up_priv, Ev_down_priv,
                Ev_property RPI_FIRMWARE_SET_CLOCK_RATE
                  \<lparr>packet_id = 3, packet_val = 1500000000\<rparr>]\<rparr>) \<and>
   (1500000 :: u32) = (if (1 :: u32) = 0 then min_frequency example_state
                       else max_frequency example_state) \<and>
   \<not> gate_blocked (example_platform True) example_world \<and>
   reachable (example_platform True) example_state \<and>
   unat ((1500000 :: u32) * 1000) = unat (1500000 :: u32) * 1000 \<and>
   bcm2835_cpufreq_driver_target_index (example_platform True) \<lparr>cur = 600000\<rparr> 0
       example_state blocked_world =
     (0, example_state, blocked_world\<lparr>trace := [Ev_up_priv, Ev_down_priv]\<rparr>) \<and>
   gate_blocked (example_platform True) blocked_world \<and>
   property_calls [Ev_up_priv, Ev_down_priv] = property_calls (trace blocked_world)"
proof -
  have t: "bcm2835_cpufreq_driver_target_index (example_platform True) \<lparr>cur = 600000\<rparr> 1
       example_state example_world =
     (0, example_state,
      \<lparr>fw_handle = True, fw_state = example_clock\<lparr>clk_cur := 1500000000\<rparr>,
       trusted_display_mmap_flag = 0, trusted_display_write_flag = 0,
       trace = [Ev_up_priv, Ev_down_priv,
                Ev_property RPI_FIRMWARE_SET_CLOCK_RATE
                  \<lparr>packet_id = 3, packet_val = 1500000000\<rparr>]\<rparr>)"
    by (simp add: driver_eval)
  have f: "(1500000 :: u32) = (if (1 :: u32) = 0 then min_frequency example_state
                       else max_frequency example_state)"
    by (simp add: example_state_def)
  have o: "\<not> gate_blocked (example_platform True) example_world"
    by (simp add: driver_eval)
  have i: "bcm2835_cpufreq_driver_init (example_platform True) \<lparr>cur = 0\<rparr> 0 0
       initial_state example_world =
     (0, example_state, \<lparr>cur = 0\<rparr>,
      example_world\<lparr>trace :=
        [Ev_up_priv, Ev_down_priv,
         Ev_property RPI_FIRMWARE_GET_MIN_CLOCK_RATE \<lparr>packet_id = 3, packet_val = 0\<rparr>,
         Ev_up_priv, Ev_down_priv,
         Ev_property RPI_FIRMWARE_GET_MAX_CLOCK_RATE \<lparr>packet_id = 3, packet_val = 0\<rparr>]\<rparr>)"
    by (simp add: driver_eval)
  have r: "reachable (example_platform True) example_state"
    by (rule reachable.after_init [OF reachable.at_load i])
  have t0: "bcm2835_cpufreq_driver_target_index (example_platform True) \<lparr>cur = 600000\<rparr> 0
       example_state blocked_world =
     (0, example_state, blocked_world\<lparr>trace := [Ev_up_priv, Ev_down_priv]\<rparr>)"
    by (simp add: driver_eval)
  have f0: "(600000 :: u32) = (if (0 :: u32) = 0 then min_frequency example_state
                       else max_frequency example_state)"
    by (simp add: example_state_def)
  have b: "gate_blocked (example_platform True) blocked_world"
    by (simp add: driver_eval)
  from target_index_request [OF t f] target_index_request [OF t0 f0] t f o r t0 b
  show ?thesis by simp
qed

text \<open>
  Claim C5. The target-index operation never changes the driver state. It returns
  \<^verbatim>\<open>-EINVAL\<close> when its SET call yields the actual rate 0 and success (0) when the
  rate is not 0. With the gate open the actual rate is 0 when the transport fails, and the
  rate the firmware echoes, divided by 1000, when it succeeds.
\<close>

theorem target_index_result:
  assumes "bcm2835_cpufreq_driver_target_index P policy state s w = (ret, s', w')"
    and "target_freq = (if state = 0 then min_frequency s else max_frequency s)"
    and "bcm2835_cpufreq_set_clock P (cur policy) target_freq w = (actual, w2)"
    and "rpi_firmware_property P (fw_handle w) (fw_state w) RPI_FIRMWARE_SET_CLOCK_RATE
           \<lparr>packet_id = VCMSG_ID_ARM_CLOCK, packet_val = target_freq * 1000\<rparr> = (r, p, f)"
  shows "s' = s \<and> min_frequency s' = min_frequency s \<and>
         max_frequency s' = max_frequency s \<and>
         bcm2835_freq_table s' = bcm2835_freq_table s \<and>
         (actual = 0 \<longrightarrow> ret = - EINVAL) \<and> (actual \<noteq> 0 \<longrightarrow> ret = 0) \<and> - EINVAL < 0 \<and>
         (\<not> gate_blocked P w \<longrightarrow> actual = (if r \<noteq> 0 then 0 else packet_val p div 1000))"
proof -
  have 1: "s' = s" using assms(1) by (rule target_index_state)
  have 2: "ret = (if actual = 0 then - EINVAL else 0)"
    using assms(1,2,3)
    by (auto simp add: bcm2835_cpufreq_driver_target_index_def Let_def split: if_splits)
  have 3: "actual = (if r \<noteq> 0 then 0 else packet_val p div 1000)" if "\<not> gate_blocked P w"
    using set_clock_open [OF that assms(4), of "cur policy"] assms(3) by simp
  from 1 2 3 show ?thesis by (simp add: EINVAL_def)
qed

theorem target_index_result_witness:
  "bcm2835_cpufreq_driver_target_index (example_platform True) \<lparr>cur = 600000\<rparr> 1
       example_state set_fails_world =
     (- 22, example_state,
      set_fails_world\<lparr>trace := [Ev_up_priv, Ev_down_priv,
                Ev_property RPI_FIRMWARE_SET_CLOCK_RATE
                  \<lparr>packet_id = 3, packet_val = 1500000000\<rparr>]\<rparr>) \<and>
   bcm2835_cpufreq_set_clock (example_platform True) 600000 1500000 set_fails_world =
     (0, set_fails_world\<lparr>trace := [Ev_up_priv, Ev_down_priv,
                Ev_property RPI_FIRMWARE_SET_CLOCK_RATE
                  \<lparr>packet_id = 3, packet_val = 1500000000\<rparr>]\<rparr>) \<and>
   - EINVAL = - 22 \<and>
   \<not> gate_blocked (example_platform True) set_fails_world \<and>
   bcm2835_cpufreq_driver_target_index (example_platform True) \<lparr>cur = 600000\<rparr> 1
       example_state example_world =
     (0, example_state,
      example_world\<lparr>fw_state := example_clock\<lparr>clk_cur := 1500000000\<rparr>,
        trace := [Ev_up_priv, Ev_down_priv,
                Ev_property RPI_FIRMWARE_SET_CLOCK_RATE
                  \<lparr>packet_id = 3, packet_val = 1500000000\<rparr>]\<rparr>) \<and>
   bcm2835_cpufreq_set_clock (example_platform True) 600000 1500000 example_world =
     (1500000,
      example_world\<lparr>fw_state := example_clock\<lparr>clk_cur := 1500000000\<rparr>,
        trace := [Ev_up_priv, Ev_down_priv,
                Ev_property RPI_FIRMWARE_SET_CLOCK_RATE
                  \<lparr>packet_id = 3, packet_val = 1500000000\<rparr>]\<rparr>)"
proof -
  let ?P = "example_platform True"
  have f: "(1500000 :: u32) = (if (1 :: u32) = 0 then min_frequency example_state
                       else max_frequency example_state)"
    by (simp add: example_state_def)
  have t1: "bcm2835_cpufreq_driver_target_index ?P \<lparr>cur = 600000\<rparr> 1
       example_state set_fails_world =
     (- 22, example_state,
      set_fails_world\<lparr>trace := [Ev_up_priv, Ev_down_priv,
                Ev_property RPI_FIRMWARE_SET_CLOCK_RATE
                  \<lparr>packet_id = 3, packet_val = 1500000000\<rparr>]\<rparr>)"
    by (simp add: driver_eval)
  have s1: "bcm2835_cpufreq_set_clock ?P (cur \<lparr>cur = 600000\<rparr>) 1500000 set_fails_world =
     (0, set_fails_world\<lparr>trace := [Ev_up_priv, Ev_down_priv,
                Ev_property RPI_FIRMWARE_SET_CLOCK_RATE
                  \<lparr>packet_id = 3, packet_val = 1500000000\<rparr>]\<rparr>)"
    by (simp add: driver_eval)
  have p1: "rpi_firmware_property ?P (fw_handle set_fails_world) (fw_state set_fails_world)
       RPI_FIRMWARE_SET_CLOCK_RATE
       \<lparr>packet_id = VCMSG_ID_ARM_CLOCK, packet_val = 1500000 * 1000\<rparr> =
     (- 5, \<lparr>packet_id = 3, packet_val = 1500000000\<rparr>, fw_state set_fails_world)"
    by (simp add: driver_eval)
  have o1: "\<not> gate_blocked ?P set_fails_world" by (simp add: driver_eval)
  have t2: "bcm2835_cpufreq_driver_target_index ?P \<lparr>cur = 600000\<rparr> 1
       example_state example_world =
     (0, example_state,
      example_world\<lparr>fw_state := example_clock\<lparr>clk_cur := 1500000000\<rparr>,
        trace := [Ev_up_priv, Ev_down_priv,
                Ev_property RPI_FIRMWARE_SET_CLOCK_RATE
                  \<lparr>packet_id = 3, packet_val = 1500000000\<rparr>]\<rparr>)"
    by (simp add: driver_eval)
  have s2: "bcm2835_cpufreq_set_clock ?P (cur \<lparr>cur = 600000\<rparr>) 1500000 example_world =
     (1500000,
      example_world\<lparr>fw_state := example_clock\<lparr>clk_cur := 1500000000\<rparr>,
        trace := [Ev_up_priv, Ev_down_priv,
                Ev_property RPI_FIRMWARE_SET_CLOCK_RATE
                  \<lparr>packet_id = 3, packet_val = 1500000000\<rparr>]\<rparr>)"
    by (simp add: driver_eval)
  have p2: "rpi_firmware_property ?P (fw_handle example_world) (fw_state example_world)
       RPI_FIRMWARE_SET_CLOCK_RATE
       \<lparr>packet_id = VCMSG_ID_ARM_CLOCK, packet_val = 1500000 * 1000\<rparr> =
     (0, \<lparr>packet_id = 3, packet_val = 1500000000\<rparr>,
      example_clock\<lparr>clk_cur := 1500000000\<rparr>)"
    by (simp add: driver_eval)
  from target_index_result [OF t1 f s1 p1] target_index_result [OF t2 f s2 p2]
    t1 s1 o1 t2 s2
  show ?thesis by (simp add: EINVAL_def)
qed

text \<open>
  Claim C1. When the firmware answers GET-minimum with \<open>p1\<close> and GET-maximum with
  \<open>p2\<close>, init stores the two rates divided by 1000 and writes the frequency fields
  \<open>[mn, END, (slot 2 as it was)]\<close> if the two are equal and \<open>[mn, mx, END]\<close> if not;
  neither rate can be the sentinel, so the operating points in front of the first
  sentinel are \<open>[mn]\<close> and \<open>[mn, mx]\<close>.
\<close>

theorem init_builds_table:
  assumes "rpi_firmware_get w" and "\<not> gate_blocked P w"
    and "length (bcm2835_freq_table s) = 3"
    and "rpi_firmware_property P (fw_handle w) (fw_state w) RPI_FIRMWARE_GET_MIN_CLOCK_RATE
           \<lparr>packet_id = VCMSG_ID_ARM_CLOCK, packet_val = j1\<rparr> = (0, p1, f1)"
    and "rpi_firmware_property P (fw_handle w) f1 RPI_FIRMWARE_GET_MAX_CLOCK_RATE
           \<lparr>packet_id = VCMSG_ID_ARM_CLOCK, packet_val = j2\<rparr> = (0, p2, f2)"
    and "bcm2835_cpufreq_driver_init P policy j1 j2 s w = (ret, s', policy', w')"
    and "mn = packet_val p1 div 1000" and "mx = packet_val p2 div 1000"
  shows "min_frequency s' = mn \<and> max_frequency s' = mx \<and>
         map frequency (bcm2835_freq_table s') =
           (if mn = mx then [mn, CPUFREQ_TABLE_END, frequency (bcm2835_freq_table s ! 2)]
            else [mn, mx, CPUFREQ_TABLE_END]) \<and>
         table_entries (bcm2835_freq_table s') = (if mn = mx then [mn] else [mn, mx])"
proof -
  from assms(1) have h: "fw_handle w" by (simp add: rpi_firmware_get_def)
  note b = init_open(1,2) [OF h assms(2) assms(4) assms(5) assms(6)]
  from b assms(7,8) have m: "min_frequency s' = mn" "max_frequency s' = mx" by simp_all
  from init_frequencies [OF h assms(3) assms(6)] init_entries [OF h assms(3) assms(6)] m
  show ?thesis by simp
qed

theorem init_builds_table_witness:
  "rpi_firmware_get example_world \<and> \<not> gate_blocked (example_platform True) example_world \<and>
   length (bcm2835_freq_table initial_state) = 3 \<and>
   bcm2835_cpufreq_driver_init (example_platform True) \<lparr>cur = 0\<rparr> 0 0 initial_state
       example_world =
     (0, example_state, \<lparr>cur = 0\<rparr>,
      example_world\<lparr>trace :=
        [Ev_up_priv, Ev_down_priv,
         Ev_property RPI_FIRMWARE_GET_MIN_CLOCK_RATE \<lparr>packet_id = 3, packet_val = 0\<rparr>,
         Ev_up_priv, Ev_down_priv,
         Ev_property RPI_FIRMWARE_GET_MAX_CLOCK_RATE \<lparr>packet_id = 3, packet_val = 0\<rparr>]\<rparr>) \<and>
   map frequency (bcm2835_freq_table example_state) = [600000, 1500000, CPUFREQ_TABLE_END] \<and>
   table_entries (bcm2835_freq_table example_state) = [600000, 1500000] \<and>
   bcm2835_cpufreq_driver_init (example_platform True) \<lparr>cur = 0\<rparr> 0 0 initial_state
       (example_world\<lparr>fw_state := example_clock\<lparr>clk_max := 600000999\<rparr>\<rparr>) =
     (0,
      \<lparr>min_frequency = 600000, max_frequency = 600000,
       bcm2835_freq_table =
         [\<lparr>flags = 0, driver_data = 0, frequency = 600000\<rparr>,
          \<lparr>flags = 0, driver_data = 0, frequency = CPUFREQ_TABLE_END\<rparr>,
          \<lparr>flags = 0, driver_data = 0, frequency = 0\<rparr>]\<rparr>,
      \<lparr>cur = 0\<rparr>,
      example_world\<lparr>fw_state := example_clock\<lparr>clk_max := 600000999\<rparr>,
        trace :=
        [Ev_up_priv, Ev_down_priv,
         Ev_property RPI_FIRMWARE_GET_MIN_CLOCK_RATE \<lparr>packet_id = 3, packet_val = 0\<rparr>,
         Ev_up_priv, Ev_down_priv,
         Ev_property RPI_FIRMWARE_GET_MAX_CLOCK_RATE \<lparr>packet_id = 3, packet_val = 0\<rparr>]\<rparr>) \<and>
   table_entries
     [\<lparr>flags = 0, driver_data = 0, frequency = 600000\<rparr>,
      \<lparr>flags = 0, driver_data = 0, frequency = CPUFREQ_TABLE_END\<rparr>,
      \<lparr>flags = 0, driver_data = 0, frequency = 0\<rparr>] = [600000]"
proof -
  let ?P = "example_platform True"
  let ?w2 = "example_world\<lparr>fw_state := example_clock\<lparr>clk_max := 600000999\<rparr>\<rparr>"
  have h: "rpi_firmware_get example_world" "rpi_firmware_get ?w2"
    by (simp_all add: driver_eval)
  have o: "\<not> gate_blocked ?P example_world" "\<not> gate_blocked ?P ?w2"
    by (simp_all add: driver_eval)
  have l: "length (bcm2835_freq_table initial_state) = 3"
    by (simp add: initial_state_def)
  have a1: "rpi_firmware_property ?P (fw_handle example_world) (fw_state example_world)
      RPI_FIRMWARE_GET_MIN_CLOCK_RATE \<lparr>packet_id = VCMSG_ID_ARM_CLOCK, packet_val = 0\<rparr> =
      (0, \<lparr>packet_id = 3, packet_val = 600000000\<rparr>, example_clock)"
    by (simp add: driver_eval)
  have a2: "rpi_firmware_property ?P (fw_handle example_world) example_clock
      RPI_FIRMWARE_GET_MAX_CLOCK_RATE \<lparr>packet_id = VCMSG_ID_ARM_CLOCK, packet_val = 0\<rparr> =
      (0, \<lparr>packet_id = 3, packet_val = 1500000000\<rparr>, example_clock)"
    by (simp add: driver_eval)
  have i1: "bcm2835_cpufreq_driver_init ?P \<lparr>cur = 0\<rparr> 0 0 initial_state example_world =
     (0, example_state, \<lparr>cur = 0\<rparr>,
      example_world\<lparr>trace :=
        [Ev_up_priv, Ev_down_priv,
         Ev_property RPI_FIRMWARE_GET_MIN_CLOCK_RATE \<lparr>packet_id = 3, packet_val = 0\<rparr>,
         Ev_up_priv, Ev_down_priv,
         Ev_property RPI_FIRMWARE_GET_MAX_CLOCK_RATE \<lparr>packet_id = 3, packet_val = 0\<rparr>]\<rparr>)"
    by (simp add: driver_eval)
  have b1: "rpi_firmware_property ?P (fw_handle ?w2) (fw_state ?w2)
      RPI_FIRMWARE_GET_MIN_CLOCK_RATE \<lparr>packet_id = VCMSG_ID_ARM_CLOCK, packet_val = 0\<rparr> =
      (0, \<lparr>packet_id = 3, packet_val = 600000000\<rparr>, example_clock\<lparr>clk_max := 600000999\<rparr>)"
    by (simp add: driver_eval)
  have b2: "rpi_firmware_property ?P (fw_handle ?w2) (example_clock\<lparr>clk_max := 600000999\<rparr>)
      RPI_FIRMWARE_GET_MAX_CLOCK_RATE \<lparr>packet_id = VCMSG_ID_ARM_CLOCK, packet_val = 0\<rparr> =
      (0, \<lparr>packet_id = 3, packet_val = 600000999\<rparr>, example_clock\<lparr>clk_max := 600000999\<rparr>)"
    by (simp add: driver_eval)
  have i2: "bcm2835_cpufreq_driver_init ?P \<lparr>cur = 0\<rparr> 0 0 initial_state ?w2 =
     (0,
      \<lparr>min_frequency = 600000, max_frequency = 600000,
       bcm2835_freq_table =
         [\<lparr>flags = 0, driver_data = 0, frequency = 600000\<rparr>,
          \<lparr>flags = 0, driver_data = 0, frequency = CPUFREQ_TABLE_END\<rparr>,
          \<lparr>flags = 0, driver_data = 0, frequency = 0\<rparr>]\<rparr>,
      \<lparr>cur = 0\<rparr>,
      example_world\<lparr>fw_state := example_clock\<lparr>clk_max := 600000999\<rparr>,
        trace :=
        [Ev_up_priv, Ev_down_priv,
         Ev_property RPI_FIRMWARE_GET_MIN_CLOCK_RATE \<lparr>packet_id = 3, packet_val = 0\<rparr>,
         Ev_up_priv, Ev_down_priv,
         Ev_property RPI_FIRMWARE_GET_MAX_CLOCK_RATE \<lparr>packet_id = 3, packet_val = 0\<rparr>]\<rparr>)"
    by (simp add: driver_eval)
  have d: "(600000000 :: u32) div 1000 = 600000" "(1500000000 :: u32) div 1000 = 1500000"
    "(600000999 :: u32) div 1000 = 600000"
    by simp_all
  from init_builds_table [OF h(1) o(1) l a1 a2 i1 refl refl]
    init_builds_table [OF h(2) o(2) l b1 b2 i2 refl refl] h o l i1 i2 d
  show ?thesis by simp
qed


text \<open>
  Claim C4, as stated, fails: init never compares the two bounds. With a firmware that
  answers GET-minimum with 600 MHz and refuses GET-maximum, init completes with
  \<^verbatim>\<open>min_frequency\<close> 600000 above \<^verbatim>\<open>max_frequency\<close> 0, and the table's operating
  points 600000, 0 go down.
\<close>

theorem init_order_counterexample:
  "fst (bcm2835_cpufreq_driver_init (example_platform False) \<lparr>cur = 0\<rparr> 0 0 initial_state
          max_fails_world) = 0 \<and>
   \<not> min_frequency (fst (snd (bcm2835_cpufreq_driver_init (example_platform False)
        \<lparr>cur = 0\<rparr> 0 0 initial_state max_fails_world)))
     \<le> max_frequency (fst (snd (bcm2835_cpufreq_driver_init (example_platform False)
        \<lparr>cur = 0\<rparr> 0 0 initial_state max_fails_world))) \<and>
   \<not> sorted (table_entries (bcm2835_freq_table (fst (snd (bcm2835_cpufreq_driver_init
        (example_platform False) \<lparr>cur = 0\<rparr> 0 0 initial_state max_fails_world)))))"
proof -
  have i: "bcm2835_cpufreq_driver_init (example_platform False) \<lparr>cur = 0\<rparr> 0 0
       initial_state max_fails_world =
     (0,
      \<lparr>min_frequency = 600000, max_frequency = 0,
       bcm2835_freq_table =
         [\<lparr>flags = 0, driver_data = 0, frequency = 600000\<rparr>,
          \<lparr>flags = 0, driver_data = 0, frequency = 0\<rparr>,
          \<lparr>flags = 0, driver_data = 0, frequency = CPUFREQ_TABLE_END\<rparr>]\<rparr>,
      \<lparr>cur = 0\<rparr>,
      max_fails_world\<lparr>trace :=
        [Ev_property RPI_FIRMWARE_GET_MIN_CLOCK_RATE \<lparr>packet_id = 3, packet_val = 0\<rparr>,
         Ev_property RPI_FIRMWARE_GET_MAX_CLOCK_RATE \<lparr>packet_id = 3, packet_val = 0\<rparr>]\<rparr>)"
    by (simp add: driver_eval)
  show ?thesis
    by (simp add: i table_entries_def CPUFREQ_TABLE_END_def)
qed

text \<open>
  Claim C4, amended. After a completed init with the gate open, \<^verbatim>\<open>min_frequency\<close> is
  at most \<^verbatim>\<open>max_frequency\<close>, and the operating points followed by the sentinel are
  non-decreasing, whenever the GET-minimum request fails (bound 0) or both requests
  succeed and the reported minimum is at most the reported maximum.
\<close>

theorem init_order_when_reported_ordered:
  assumes "rpi_firmware_get w" and "\<not> gate_blocked P w"
    and "length (bcm2835_freq_table s) = 3"
    and "rpi_firmware_property P (fw_handle w) (fw_state w) RPI_FIRMWARE_GET_MIN_CLOCK_RATE
           \<lparr>packet_id = VCMSG_ID_ARM_CLOCK, packet_val = j1\<rparr> = (r1, p1, f1)"
    and "rpi_firmware_property P (fw_handle w) f1 RPI_FIRMWARE_GET_MAX_CLOCK_RATE
           \<lparr>packet_id = VCMSG_ID_ARM_CLOCK, packet_val = j2\<rparr> = (r2, p2, f2)"
    and "bcm2835_cpufreq_driver_init P policy j1 j2 s w = (ret, s', policy', w')"
    and "r1 \<noteq> 0 \<or> (r2 = 0 \<and> packet_val p1 \<le> packet_val p2)"
  shows "min_frequency s' \<le> max_frequency s' \<and>
         sorted (table_entries (bcm2835_freq_table s') @ [CPUFREQ_TABLE_END])"
proof -
  from assms(1) have h: "fw_handle w" by (simp add: rpi_firmware_get_def)
  note b = init_open(1,2) [OF h assms(2) assms(4) assms(5) assms(6)]
  have le: "min_frequency s' \<le> max_frequency s'"
  proof (cases "r1 = 0")
    case True
    with assms(7) have "r2 = 0" "packet_val p1 \<le> packet_val p2" by simp_all
    with True b show ?thesis by (simp add: khz_mono)
  next
    case False
    with b show ?thesis by simp
  qed
  note k = init_bounds [OF h assms(6)]
  from le khz_le_table_end [OF k(1)] khz_le_table_end [OF k(2)]
  have "sorted (table_entries (bcm2835_freq_table s') @ [CPUFREQ_TABLE_END])"
    by (simp add: init_entries [OF h assms(3) assms(6)])
  with le show ?thesis by simp
qed

theorem init_order_when_reported_ordered_witness:
  "rpi_firmware_get example_world \<and> \<not> gate_blocked (example_platform True) example_world \<and>
   length (bcm2835_freq_table initial_state) = 3 \<and>
   (600000000 :: u32) \<le> 1500000000 \<and>
   bcm2835_cpufreq_driver_init (example_platform True) \<lparr>cur = 0\<rparr> 0 0 initial_state
       example_world =
     (0, example_state, \<lparr>cur = 0\<rparr>,
      example_world\<lparr>trace :=
        [Ev_up_priv, Ev_down_priv,
         Ev_property RPI_FIRMWARE_GET_MIN_CLOCK_RATE \<lparr>packet_id = 3, packet_val = 0\<rparr>,
         Ev_up_priv, Ev_down_priv,
         Ev_property RPI_FIRMWARE_GET_MAX_CLOCK_RATE \<lparr>packet_id = 3, packet_val = 0\<rparr>]\<rparr>) \<and>
   min_frequency example_state \<le> max_frequency example_state \<and>
   sorted (table_entries (bcm2835_freq_table example_state) @ [CPUFREQ_TABLE_END])"
proof -
  let ?P = "example_platform True"
  have h: "rpi_firmware_get example_world" by (simp add: driver_eval)
  have o: "\<not> gate_blocked ?P example_world" by (simp add: driver_eval)
  have l: "length (bcm2835_freq_table initial_state) = 3"
    by (simp add: initial_state_def)
  have a1: "rpi_firmware_property ?P (fw_handle example_world) (fw_state example_world)
      RPI_FIRMWARE_GET_MIN_CLOCK_RATE \<lparr>packet_id = VCMSG_ID_ARM_CLOCK, packet_val = 0\<rparr> =
      (0, \<lparr>packet_id = 3, packet_val = 600000000\<rparr>, example_clock)"
    by (simp add: driver_eval)
  have a2: "rpi_firmware_property ?P (fw_handle example_world) example_clock
      RPI_FIRMWARE_GET_MAX_CLOCK_RATE \<lparr>packet_id = VCMSG_ID_ARM_CLOCK, packet_val = 0\<rparr> =
      (0, \<lparr>packet_id = 3, packet_val = 1500000000\<rparr>, example_clock)"
    by (simp add: driver_eval)
  have i1: "bcm2835_cpufreq_driver_init ?P \<lparr>cur = 0\<rparr> 0 0 initial_state example_world =
     (0, example_state, \<lparr>cur = 0\<rparr>,
      example_world\<lparr>trace :=
        [Ev_up_priv, Ev_down_priv,
         Ev_property RPI_FIRMWARE_GET_MIN_CLOCK_RATE \<lparr>packet_id = 3, packet_val = 0\<rparr>,
         Ev_up_priv, Ev_down_priv,
         Ev_property RPI_FIRMWARE_GET_MAX_CLOCK_RATE \<lparr>packet_id = 3, packet_val = 0\<rparr>]\<rparr>)"
    by (simp add: driver_eval)
  have c: "(0 :: int) \<noteq> 0 \<or>
      ((0 :: int) = 0 \<and>
       packet_val \<lparr>packet_id = 3, packet_val = 600000000\<rparr>
         \<le> packet_val \<lparr>packet_id = 3, packet_val = 1500000000\<rparr>)"
    by simp
  have q: "(600000000 :: u32) \<le> 1500000000" by simp
  from init_order_when_reported_ordered [OF h o l a1 a2 i1 c] h o l i1 q
  show ?thesis by simp
qed


text \<open>
  Claim C8. With the gate open, a GET-minimum or GET-maximum request that the transport
  fails does not stop init: the bound becomes 0, a 0 operating point is in the table
  (slot 0 for the minimum; slot 1 for the maximum unless the minimum is 0 as well, when
  slot 0 already holds it), and init returns what the framework's registration returns.
  The failing transport's status goes no further than \<^verbatim>\<open>bcm2835_cpufreq_get_clock\<close>,
  which returns rate 0; the get operation then answers \<^verbatim>\<open>min_frequency\<close>.
\<close>

theorem init_absorbs_transport_failure:
  assumes "rpi_firmware_get w" and "\<not> gate_blocked P w"
    and "length (bcm2835_freq_table s) = 3"
    and "rpi_firmware_property P (fw_handle w) (fw_state w) RPI_FIRMWARE_GET_MIN_CLOCK_RATE
           \<lparr>packet_id = VCMSG_ID_ARM_CLOCK, packet_val = j1\<rparr> = (r1, p1, f1)"
    and "rpi_firmware_property P (fw_handle w) f1 RPI_FIRMWARE_GET_MAX_CLOCK_RATE
           \<lparr>packet_id = VCMSG_ID_ARM_CLOCK, packet_val = j2\<rparr> = (r2, p2, f2)"
    and "rpi_firmware_property P (fw_handle w) (fw_state w) RPI_FIRMWARE_GET_CLOCK_RATE
           \<lparr>packet_id = VCMSG_ID_ARM_CLOCK, packet_val = j\<rparr> = (r3, p3, f3)"
    and "bcm2835_cpufreq_driver_init P policy j1 j2 s w = (ret, s', policy', w')"
    and "r1 \<noteq> 0 \<or> r2 \<noteq> 0"
  shows "(r1 \<noteq> 0 \<longrightarrow> min_frequency s' = 0 \<and> frequency (bcm2835_freq_table s' ! 0) = 0) \<and>
         (r2 \<noteq> 0 \<longrightarrow> max_frequency s' = 0 \<and>
            (min_frequency s' \<noteq> 0 \<longrightarrow> frequency (bcm2835_freq_table s' ! 1) = 0)) \<and>
         0 \<in> set (table_entries (bcm2835_freq_table s')) \<and>
         cpufreq_generic_init P policy (bcm2835_freq_table s') transition_latency =
           (ret, policy') \<and>
         (r3 \<noteq> 0 \<longrightarrow>
            fst (bcm2835_cpufreq_get_clock P RPI_FIRMWARE_GET_CLOCK_RATE j w) = 0 \<and>
            fst (bcm2835_cpufreq_driver_get P cpu j s w) = min_frequency s)"
proof -
  from assms(1) have h: "fw_handle w" by (simp add: rpi_firmware_get_def)
  note b = init_open [OF h assms(2) assms(4) assms(5) assms(7)]
  note fr = init_frequencies [OF h assms(3) assms(7)]
  note en = init_entries [OF h assms(3) assms(7)]
  have len: "length (bcm2835_freq_table s') = 3"
    using init_length [OF assms(7)] assms(3) by simp
  have n0: "frequency (bcm2835_freq_table s' ! 0) = min_frequency s'"
  proof -
    have "frequency (bcm2835_freq_table s' ! 0) = map frequency (bcm2835_freq_table s') ! 0"
      using len by simp
    then show ?thesis by (simp add: fr)
  qed
  have n1: "frequency (bcm2835_freq_table s' ! 1) = max_frequency s'"
    if "min_frequency s' \<noteq> max_frequency s'"
  proof -
    have "frequency (bcm2835_freq_table s' ! 1) = map frequency (bcm2835_freq_table s') ! 1"
      using len by simp
    with that show ?thesis by (simp add: fr)
  qed
  have 1: "min_frequency s' = 0 \<and> frequency (bcm2835_freq_table s' ! 0) = 0" if "r1 \<noteq> 0"
    using that b(1) n0 by simp
  have 2: "max_frequency s' = 0 \<and>
      (min_frequency s' \<noteq> 0 \<longrightarrow> frequency (bcm2835_freq_table s' ! 1) = 0)" if "r2 \<noteq> 0"
    using that b(2) n1 by auto
  have 3: "0 \<in> set (table_entries (bcm2835_freq_table s'))"
    using assms(8) 1 2 by (auto simp add: en)
  have 4: "fst (bcm2835_cpufreq_get_clock P RPI_FIRMWARE_GET_CLOCK_RATE j w) = 0 \<and>
      fst (bcm2835_cpufreq_driver_get P cpu j s w) = min_frequency s" if "r3 \<noteq> 0"
    using that get_clock_open [OF assms(2) assms(6)]
    by (simp add: bcm2835_cpufreq_driver_get_def)
  from 1 2 3 4 b(3) show ?thesis by simp
qed

theorem init_absorbs_transport_failure_witness:
  "rpi_firmware_get max_fails_world \<and> \<not> gate_blocked (example_platform True) max_fails_world \<and>
   rpi_firmware_get min_cur_fail_world \<and>
   \<not> gate_blocked (example_platform True) min_cur_fail_world \<and>
   length (bcm2835_freq_table initial_state) = 3 \<and>
   bcm2835_cpufreq_driver_init (example_platform True) \<lparr>cur = 0\<rparr> 0 0 initial_state
       max_fails_world =
     (0,
      \<lparr>min_frequency = 600000, max_frequency = 0,
       bcm2835_freq_table =
         [\<lparr>flags = 0, driver_data = 0, frequency = 600000\<rparr>,
          \<lparr>flags = 0, driver_data = 0, frequency = 0\<rparr>,
          \<lparr>flags = 0, driver_data = 0, frequency = CPUFREQ_TABLE_END\<rparr>]\<rparr>,
      \<lparr>cur = 0\<rparr>,
      max_fails_world\<lparr>trace :=
        [Ev_up_priv, Ev_down_priv,
         Ev_property RPI_FIRMWARE_GET_MIN_CLOCK_RATE \<lparr>packet_id = 3, packet_val = 0\<rparr>,
         Ev_up_priv, Ev_down_priv,
         Ev_property RPI_FIRMWARE_GET_MAX_CLOCK_RATE \<lparr>packet_id = 3, packet_val = 0\<rparr>]\<rparr>) \<and>
   bcm2835_cpufreq_driver_init (example_platform True) \<lparr>cur = 0\<rparr> 0 0 initial_state
       min_cur_fail_world =
     (0,
      \<lparr>min_frequency = 0, max_frequency = 1500000,
       bcm2835_freq_table =
         [\<lparr>flags = 0, driver_data = 0, frequency = 0\<rparr>,
          \<lparr>flags = 0, driver_data = 0, frequency = 1500000\<rparr>,
          \<lparr>flags = 0, driver_data = 0, frequency = CPUFREQ_TABLE_END\<rparr>]\<rparr>,
      \<lparr>cur = 0\<rparr>,
      min_cur_fail_world\<lparr>trace :=
        [Ev_up_priv, Ev_down_priv,
         Ev_property RPI_FIRMWARE_GET_MIN_CLOCK_RATE \<lparr>packet_id = 3, packet_val = 0\<rparr>,
         Ev_up_priv, Ev_down_priv,
         Ev_property RPI_FIRMWARE_GET_MAX_CLOCK_RATE \<lparr>packet_id = 3, packet_val = 0\<rparr>]\<rparr>) \<and>
   fst (bcm2835_cpufreq_get_clock (example_platform True) RPI_FIRMWARE_GET_CLOCK_RATE 0
          min_cur_fail_world) = 0 \<and>
   fst (bcm2835_cpufreq_driver_get (example_platform True) 0 0 initial_state
          min_cur_fail_world) = min_frequency initial_state"
proof -
  let ?P = "example_platform True"
  have h: "rpi_firmware_get max_fails_world" "rpi_firmware_get min_cur_fail_world"
    by (simp_all add: driver_eval)
  have o: "\<not> gate_blocked ?P max_fails_world" "\<not> gate_blocked ?P min_cur_fail_world"
    by (simp_all add: driver_eval)
  have l: "length (bcm2835_freq_table initial_state) = 3"
    by (simp add: initial_state_def)
  have a1: "rpi_firmware_property ?P (fw_handle max_fails_world) (fw_state max_fails_world)
      RPI_FIRMWARE_GET_MIN_CLOCK_RATE \<lparr>packet_id = VCMSG_ID_ARM_CLOCK, packet_val = 0\<rparr> =
      (0, \<lparr>packet_id = 3, packet_val = 600000000\<rparr>, fw_state max_fails_world)"
    by (simp add: driver_eval)
  have a2: "rpi_firmware_property ?P (fw_handle max_fails_world) (fw_state max_fails_world)
      RPI_FIRMWARE_GET_MAX_CLOCK_RATE \<lparr>packet_id = VCMSG_ID_ARM_CLOCK, packet_val = 0\<rparr> =
      (- 5, \<lparr>packet_id = 3, packet_val = 0\<rparr>, fw_state max_fails_world)"
    by (simp add: driver_eval)
  have a3: "rpi_firmware_property ?P (fw_handle max_fails_world) (fw_state max_fails_world)
      RPI_FIRMWARE_GET_CLOCK_RATE \<lparr>packet_id = VCMSG_ID_ARM_CLOCK, packet_val = 0\<rparr> =
      (0, \<lparr>packet_id = 3, packet_val = 1200000000\<rparr>, fw_state max_fails_world)"
    by (simp add: driver_eval)
  have i1: "bcm2835_cpufreq_driver_init ?P \<lparr>cur = 0\<rparr> 0 0 initial_state max_fails_world =
     (0,
      \<lparr>min_frequency = 600000, max_frequency = 0,
       bcm2835_freq_table =
         [\<lparr>flags = 0, driver_data = 0, frequency = 600000\<rparr>,
          \<lparr>flags = 0, driver_data = 0, frequency = 0\<rparr>,
          \<lparr>flags = 0, driver_data = 0, frequency = CPUFREQ_TABLE_END\<rparr>]\<rparr>,
      \<lparr>cur = 0\<rparr>,
      max_fails_world\<lparr>trace :=
        [Ev_up_priv, Ev_down_priv,
         Ev_property RPI_FIRMWARE_GET_MIN_CLOCK_RATE \<lparr>packet_id = 3, packet_val = 0\<rparr>,
         Ev_up_priv, Ev_down_priv,
         Ev_property RPI_FIRMWARE_GET_MAX_CLOCK_RATE \<lparr>packet_id = 3, packet_val = 0\<rparr>]\<rparr>)"
    by (simp add: driver_eval)
  have c1: "(0 :: int) \<noteq> 0 \<or> (- 5 :: int) \<noteq> 0" by simp
  have b1: "rpi_firmware_property ?P (fw_handle min_cur_fail_world)
      (fw_state min_cur_fail_world)
      RPI_FIRMWARE_GET_MIN_CLOCK_RATE \<lparr>packet_id = VCMSG_ID_ARM_CLOCK, packet_val = 0\<rparr> =
      (- 5, \<lparr>packet_id = 3, packet_val = 0\<rparr>, fw_state min_cur_fail_world)"
    by (simp add: driver_eval)
  have b2: "rpi_firmware_property ?P (fw_handle min_cur_fail_world)
      (fw_state min_cur_fail_world)
      RPI_FIRMWARE_GET_MAX_CLOCK_RATE \<lparr>packet_id = VCMSG_ID_ARM_CLOCK, packet_val = 0\<rparr> =
      (0, \<lparr>packet_id = 3, packet_val = 1500000000\<rparr>, fw_state min_cur_fail_world)"
    by (simp add: driver_eval)
  have b3: "rpi_firmware_property ?P (fw_handle min_cur_fail_world)
      (fw_state min_cur_fail_world)
      RPI_FIRMWARE_GET_CLOCK_RATE \<lparr>packet_id = VCMSG_ID_ARM_CLOCK, packet_val = 0\<rparr> =
      (- 5, \<lparr>packet_id = 3, packet_val = 0\<rparr>, fw_state min_cur_fail_world)"
    by (simp add: driver_eval)
  have i2: "bcm2835_cpufreq_driver_init ?P \<lparr>cur = 0\<rparr> 0 0 initial_state min_cur_fail_world =
     (0,
      \<lparr>min_frequency = 0, max_frequency = 1500000,
       bcm2835_freq_table =
         [\<lparr>flags = 0, driver_data = 0, frequency = 0\<rparr>,
          \<lparr>flags = 0, driver_data = 0, frequency = 1500000\<rparr>,
          \<lparr>flags = 0, driver_data = 0, frequency = CPUFREQ_TABLE_END\<rparr>]\<rparr>,
      \<lparr>cur = 0\<rparr>,
      min_cur_fail_world\<lparr>trace :=
        [Ev_up_priv, Ev_down_priv,
         Ev_property RPI_FIRMWARE_GET_MIN_CLOCK_RATE \<lparr>packet_id = 3, packet_val = 0\<rparr>,
         Ev_up_priv, Ev_down_priv,
         Ev_property RPI_FIRMWARE_GET_MAX_CLOCK_RATE \<lparr>packet_id = 3, packet_val = 0\<rparr>]\<rparr>)"
    by (simp add: driver_eval)
  have c2: "(- 5 :: int) \<noteq> 0 \<or> (0 :: int) \<noteq> 0" by simp
  from init_absorbs_transport_failure [OF h(1) o(1) l a1 a2 a3 i1 c1, of 0]
    init_absorbs_transport_failure [OF h(2) o(2) l b1 b2 b3 i2 c2, of 0]
    h o l i1 i2
  show ?thesis by simp
qed


text \<open>
  Claim C9. Rates are 32-bit unsigned words. In every reachable driver state the rate
  that the target-index operation sends through the open gate is the target in kHz times
  1000 without wrap-around, hence a multiple of 1000. In the other direction both
  \<^verbatim>\<open>bcm2835_cpufreq_set_clock\<close> and \<^verbatim>\<open>bcm2835_cpufreq_get_clock\<close> return the reported
  rate divided by 1000, rounded down: the remainder below 1000 Hz is dropped.
\<close>

theorem rate_conversions:
  assumes "reachable P s" and "\<not> gate_blocked P w"
    and "bcm2835_cpufreq_driver_target_index P policy state s w = (ret, s', w')"
    and "target_freq = (if state = 0 then min_frequency s else max_frequency s)"
    and "rpi_firmware_property P (fw_handle w) (fw_state w) RPI_FIRMWARE_SET_CLOCK_RATE
           \<lparr>packet_id = VCMSG_ID_ARM_CLOCK, packet_val = target_freq * 1000\<rparr> = (0, p, f)"
    and "bcm2835_cpufreq_set_clock P (cur policy) target_freq w = (actual, w2)"
    and "rpi_firmware_property P (fw_handle w) (fw_state w) tag
           \<lparr>packet_id = VCMSG_ID_ARM_CLOCK, packet_val = stale\<rparr> = (0, q, g)"
    and "bcm2835_cpufreq_get_clock P tag stale w = (khz, w3)"
  shows "property_calls (trace w') =
           property_calls (trace w) @
             [(RPI_FIRMWARE_SET_CLOCK_RATE,
               \<lparr>packet_id = VCMSG_ID_ARM_CLOCK, packet_val = target_freq * 1000\<rparr>)] \<and>
         unat (target_freq * 1000) = unat target_freq * 1000 \<and>
         1000 dvd unat (target_freq * 1000) \<and>
         actual = packet_val p div 1000 \<and>
         unat actual = unat (packet_val p) div 1000 \<and>
         khz = packet_val q div 1000 \<and>
         unat khz = unat (packet_val q) div 1000 \<and>
         unat khz * 1000 \<le> unat (packet_val q) \<and>
         unat (packet_val q) < unat khz * 1000 + 1000"
proof -
  have t: "bcm2835_cpufreq_driver_target_index P policy state s w =
      (if actual = 0 then (- EINVAL, s, w2) else (0, s, w2))"
    using assms(4,6) by (simp add: bcm2835_cpufreq_driver_target_index_def)
  note sc = set_clock_open [OF assms(2) assms(5), of "cur policy"]
  from t assms(3) have "w' = w2" by (simp split: if_splits)
  with sc assms(6) have 1: "property_calls (trace w') =
           property_calls (trace w) @
             [(RPI_FIRMWARE_SET_CLOCK_RATE,
               \<lparr>packet_id = VCMSG_ID_ARM_CLOCK, packet_val = target_freq * 1000\<rparr>)]"
    by (auto simp add: log_event_def property_calls_append)
  from reachable_inv [OF assms(1)] assms(4) have "unat target_freq \<le> 4294967" by simp
  then have 2: "unat (target_freq * 1000) = unat target_freq * 1000"
    by (rule khz_to_hz_exact)
  from sc assms(6) have 3: "actual = packet_val p div 1000" by simp
  from get_clock_open [OF assms(2) assms(7)] assms(8)
  have 4: "khz = packet_val q div 1000" by simp
  have 5: "unat khz = unat (packet_val q) div 1000" by (simp add: 4 unat_div)
  have 6: "unat khz * 1000 \<le> unat (packet_val q)"
    unfolding 5 by (rule div_times_less_eq_dividend)
  have 7: "unat (packet_val q) < unat khz * 1000 + 1000"
    unfolding 5 using dividend_less_div_times [of 1000 "unat (packet_val q)"]
    by (simp add: add.commute)
  have 8: "1000 dvd unat (target_freq * 1000)" unfolding 2 by simp
  have 9: "unat actual = unat (packet_val p) div 1000" by (simp add: 3 unat_div)
  show ?thesis
    using 1 2 8 3 9 4 5 6 7 by blast
qed

theorem rate_conversions_witness:
  "reachable (example_platform True) example_state \<and>
   \<not> gate_blocked (example_platform True)
        (example_world\<lparr>fw_state := example_clock\<lparr>clk_cur := 1199999999\<rparr>\<rparr>) \<and>
   bcm2835_cpufreq_driver_target_index (example_platform True) \<lparr>cur = 600000\<rparr> 1
       example_state (example_world\<lparr>fw_state := example_clock\<lparr>clk_cur := 1199999999\<rparr>\<rparr>) =
     (0, example_state,
      example_world\<lparr>fw_state := example_clock\<lparr>clk_cur := 1500000000\<rparr>,
        trace := [Ev_up_priv, Ev_down_priv,
                Ev_property RPI_FIRMWARE_SET_CLOCK_RATE
                  \<lparr>packet_id = 3, packet_val = 1500000000\<rparr>]\<rparr>) \<and>
   bcm2835_cpufreq_set_clock (example_platform True) 600000 1500000
       (example_world\<lparr>fw_state := example_clock\<lparr>clk_cur := 1199999999\<rparr>\<rparr>) =
     (1500000,
      example_world\<lparr>fw_state := example_clock\<lparr>clk_cur := 1500000000\<rparr>,
        trace := [Ev_up_priv, Ev_down_priv,
                Ev_property RPI_FIRMWARE_SET_CLOCK_RATE
                  \<lparr>packet_id = 3, packet_val = 1500000000\<rparr>]\<rparr>) \<and>
   bcm2835_cpufreq_get_clock (example_platform True) RPI_FIRMWARE_GET_CLOCK_RATE 0
       (example_world\<lparr>fw_state := example_clock\<lparr>clk_cur := 1199999999\<rparr>\<rparr>) =
     (1199999,
      example_world\<lparr>fw_state := example_clock\<lparr>clk_cur := 1199999999\<rparr>,
        trace := [Ev_up_priv, Ev_down_priv,
                Ev_property RPI_FIRMWARE_GET_CLOCK_RATE \<lparr>packet_id = 3, packet_val = 0\<rparr>]\<rparr>) \<and>
   unat ((1500000 :: u32) * 1000) = unat (1500000 :: u32) * 1000 \<and>
   1000 dvd unat ((1500000 :: u32) * 1000) \<and>
   unat (1199999 :: u32) = unat (1199999999 :: u32) div 1000"
proof -
  let ?P = "example_platform True"
  let ?w = "example_world\<lparr>fw_state := example_clock\<lparr>clk_cur := 1199999999\<rparr>\<rparr>"
  have i: "bcm2835_cpufreq_driver_init ?P \<lparr>cur = 0\<rparr> 0 0 initial_state example_world =
     (0, example_state, \<lparr>cur = 0\<rparr>,
      example_world\<lparr>trace :=
        [Ev_up_priv, Ev_down_priv,
         Ev_property RPI_FIRMWARE_GET_MIN_CLOCK_RATE \<lparr>packet_id = 3, packet_val = 0\<rparr>,
         Ev_up_priv, Ev_down_priv,
         Ev_property RPI_FIRMWARE_GET_MAX_CLOCK_RATE \<lparr>packet_id = 3, packet_val = 0\<rparr>]\<rparr>)"
    by (simp add: driver_eval)
  have r: "reachable ?P example_state"
    by (rule reachable.after_init [OF reachable.at_load i])
  have o: "\<not> gate_blocked ?P ?w" by (simp add: driver_eval)
  have t: "bcm2835_cpufreq_driver_target_index ?P \<lparr>cur = 600000\<rparr> 1 example_state ?w =
     (0, example_state,
      example_world\<lparr>fw_state := example_clock\<lparr>clk_cur := 1500000000\<rparr>,
        trace := [Ev_up_priv, Ev_down_priv,
                Ev_property RPI_FIRMWARE_SET_CLOCK_RATE
                  \<lparr>packet_id = 3, packet_val = 1500000000\<rparr>]\<rparr>)"
    by (simp add: driver_eval)
  have f: "(1500000 :: u32) = (if (1 :: u32) = 0 then min_frequency example_state
                       else max_frequency example_state)"
    by (simp add: example_state_def)
  have p: "rpi_firmware_property ?P (fw_handle ?w) (fw_state ?w) RPI_FIRMWARE_SET_CLOCK_RATE
       \<lparr>packet_id = VCMSG_ID_ARM_CLOCK, packet_val = 1500000 * 1000\<rparr> =
     (0, \<lparr>packet_id = 3, packet_val = 1500000000\<rparr>,
      example_clock\<lparr>clk_cur := 1500000000\<rparr>)"
    by (simp add: driver_eval)
  have s: "bcm2835_cpufreq_set_clock ?P (cur \<lparr>cur = 600000\<rparr>) 1500000 ?w =
     (1500000,
      example_world\<lparr>fw_state := example_clock\<lparr>clk_cur := 1500000000\<rparr>,
        trace := [Ev_up_priv, Ev_down_priv,
                Ev_property RPI_FIRMWARE_SET_CLOCK_RATE
                  \<lparr>packet_id = 3, packet_val = 1500000000\<rparr>]\<rparr>)"
    by (simp add: driver_eval)
  have q: "rpi_firmware_property ?P (fw_handle ?w) (fw_state ?w) RPI_FIRMWARE_GET_CLOCK_RATE
       \<lparr>packet_id = VCMSG_ID_ARM_CLOCK, packet_val = 0\<rparr> =
     (0, \<lparr>packet_id = 3, packet_val = 1199999999\<rparr>,
      example_clock\<lparr>clk_cur := 1199999999\<rparr>)"
    by (simp add: driver_eval)
  have g: "bcm2835_cpufreq_get_clock ?P RPI_FIRMWARE_GET_CLOCK_RATE 0 ?w =
     (1199999,
      example_world\<lparr>fw_state := example_clock\<lparr>clk_cur := 1199999999\<rparr>,
        trace := [Ev_up_priv, Ev_down_priv,
                Ev_property RPI_FIRMWARE_GET_CLOCK_RATE \<lparr>packet_id = 3, packet_val = 0\<rparr>]\<rparr>)"
    by (simp add: driver_eval)
  from rate_conversions [OF r o t f p s q g] r o t s g
  show ?thesis by simp
qed

end
